theory Spec2Isabelle
  imports Main
begin

section \<open>Data model of the authentication controller\<close>

text \<open>
  The development embeds \<^verbatim>\<open>src/controllers/AuthController.ts\<close>: the five handlers
  \<^verbatim>\<open>register\<close>, \<^verbatim>\<open>login\<close>, \<^verbatim>\<open>self\<close>, \<^verbatim>\<open>refresh\<close> and \<^verbatim>\<open>logout\<close>.
  The type parameter \<open>'n\<close> stands for the JavaScript number type (identity ids, record ids),
  the type parameter \<open>'w\<close> for the state of everything behind the injected services
  (database, key files, clock).
\<close>

text \<open>JavaScript values that are logged or sent as a JSON body.\<close>

datatype 'n jsval =
    JUndefined
  | JNull
  | JStr string
  | JNum 'n
  | JArr "'n jsval list"
  | JObj "(string \<times> 'n jsval) list"

text \<open>
  A thrown value. \<open>HttpError status message\<close> is what \<^verbatim>\<open>createHttpError(status, message)\<close>
  builds; \<open>Thrown\<close> is any other value a service throws or rejects with.
\<close>

datatype error = HttpError nat string | Thrown string

definition createHttpError :: "nat \<Rightarrow> string \<Rightarrow> error" where
  "createHttpError status message = HttpError status message"

text \<open>
  Modelled from the spec: the \<^verbatim>\<open>Roles\<close> constants of \<^verbatim>\<open>../constants\<close> (section 3 lists the
  roles, section 8 gives the wire value \<^verbatim>\<open>"customer"\<close>).
\<close>

definition Roles_CUSTOMER :: string where
  "Roles_CUSTOMER = ''customer''"

text \<open>
  Modelled from the spec: the user and tenant entities, with the fields the controller reads
  (section 3, Identity, plus the stored password hash of section 6). A missing tenant
  (\<^verbatim>\<open>null\<close> or \<^verbatim>\<open>undefined\<close>) is \<open>None\<close>.
\<close>

record 'n tenant =
  tenant_id :: 'n

record 'n user =
  user_id :: 'n
  user_firstName :: string
  user_lastName :: string
  user_email :: string
  user_password :: string
  user_role :: string
  user_tenant :: "'n tenant option"

text \<open>The argument object of \<^verbatim>\<open>userService.create\<close>.\<close>

record user_data =
  data_firstName :: string
  data_lastName :: string
  data_email :: string
  data_password :: string
  data_role :: string

text \<open>Modelled from the spec: the refresh-token record (section 3); the controller reads its id.\<close>

record 'n refresh_token =
  token_id :: 'n
  token_owner :: 'n

text \<open>The \<^verbatim>\<open>JwtPayload\<close> objects the controller builds; \<open>jwt_id\<close> is absent until spread in.\<close>

record jwt_payload =
  jwt_sub :: string
  jwt_role :: string
  jwt_tenant :: string
  jwt_firstName :: string
  jwt_lastName :: string
  jwt_email :: string
  jwt_id :: "string option"

text \<open>
  Modelled from the spec: \<^verbatim>\<open>req.auth\<close> of \<^verbatim>\<open>AuthRequest\<close>, the verified claims of the
  presented token (section 6, token wire shape); \<open>auth_id\<close> is present for refresh tokens only.
\<close>

record auth_claims =
  auth_sub :: string
  auth_role :: string
  auth_tenant :: string
  auth_firstName :: string
  auth_lastName :: string
  auth_email :: string
  auth_id :: "string option"

record auth_request =
  auth :: auth_claims

text \<open>
  \<^verbatim>\<open>RegisterUserRequest\<close>: the body fields the handlers destructure, and the outcome of
  \<^verbatim>\<open>validationResult(req).array()\<close> (computed by express-validator, outside the controller).
\<close>

record reg_body =
  body_firstName :: string
  body_lastName :: string
  body_email :: string
  body_password :: string

record 'n register_request =
  validation :: "'n jsval list"
  body :: reg_body

record cookie_options =
  domain :: "string option"
  sameSite :: string
  maxAge :: int
  httpOnly :: bool

section \<open>Effects\<close>

text \<open>
  Every call the controller makes on a collaborator is an event, recorded in program order
  together with what the collaborator answered (\<open>Inl\<close>: it threw or rejected).
  \<open>Next e\<close> is \<^verbatim>\<open>next(e)\<close>; \<open>Rejected e\<close> is the handler's own promise rejecting with \<open>e\<close>.
\<close>

datatype 'n event =
    Logger_debug string "'n jsval"
  | Logger_info string "'n jsval"
  | UserService_create user_data "error + 'n user"
  | UserService_findByEmailWithPassword string "error + 'n user option"
  | UserService_findById 'n "error + 'n user option"
  | CredentialService_comparePassword string string "error + bool"
  | TokenService_generateAccessToken jwt_payload "error + string"
  | TokenService_persistRefreshToken "'n user" "error + 'n refresh_token"
  | TokenService_generateRefreshToken jwt_payload "error + string"
  | TokenService_deleteRefreshToken 'n "error + unit"
  | Res_status nat
  | Res_json "'n jsval"
  | Res_cookie string string cookie_options
  | Res_clearCookie string
  | Next error
  | Rejected error

text \<open>
  The collaborators injected into the controller, none of which is part of the source file:
  the services, the configuration constant \<^verbatim>\<open>Config.MAIN_DOMAIN\<close>, and the built-in
  conversions \<^verbatim>\<open>String(n)\<close> and \<^verbatim>\<open>Number(s)\<close> (the latter also applied to \<^verbatim>\<open>undefined\<close>,
  written \<open>None\<close>). Each service maps the outside state to its answer and the new state.
\<close>

record ('w, 'n) env =
  js_String :: "'n \<Rightarrow> string"
  js_Number :: "string option \<Rightarrow> 'n"
  MAIN_DOMAIN :: "string option"
  create :: "user_data \<Rightarrow> 'w \<Rightarrow> (error + 'n user) \<times> 'w"
  findByEmailWithPassword :: "string \<Rightarrow> 'w \<Rightarrow> (error + 'n user option) \<times> 'w"
  findById :: "'n \<Rightarrow> 'w \<Rightarrow> (error + 'n user option) \<times> 'w"
  comparePassword :: "string \<Rightarrow> string \<Rightarrow> 'w \<Rightarrow> (error + bool) \<times> 'w"
  generateAccessToken :: "jwt_payload \<Rightarrow> 'w \<Rightarrow> (error + string) \<times> 'w"
  persistRefreshToken :: "'n user \<Rightarrow> 'w \<Rightarrow> (error + 'n refresh_token) \<times> 'w"
  generateRefreshToken :: "jwt_payload \<Rightarrow> 'w \<Rightarrow> (error + string) \<times> 'w"
  deleteRefreshToken :: "'n \<Rightarrow> 'w \<Rightarrow> (error + unit) \<times> 'w"

text \<open>
  A piece of handler code: from the outside state to its value (or the thrown error), the
  events it produced, and the new outside state.
\<close>

type_synonym ('w, 'n, 'a) action = "'w \<Rightarrow> (error + 'a) \<times> 'n event list \<times> 'w"

text \<open>Sequencing: a thrown error skips the rest.\<close>

definition and_then :: "('w, 'n, 'a) action \<Rightarrow> ('a \<Rightarrow> ('w, 'n, 'b) action) \<Rightarrow> ('w, 'n, 'b) action" where
  "and_then m f w =
     (case m w of
        (Inl e, t, w') \<Rightarrow> (Inl e, t, w')
      | (Inr a, t, w') \<Rightarrow> (case f a w' of (r, t', w'') \<Rightarrow> (r, t @ t', w'')))"

text \<open>A call on the logger or on the response object: recorded, never throwing.\<close>

definition emit :: "'n event \<Rightarrow> ('w, 'n, unit) action" where
  "emit ev w = (Inr (), [ev], w)"

text \<open>A call on a service: recorded with its answer.\<close>

definition call :: "('w \<Rightarrow> (error + 'a) \<times> 'w) \<Rightarrow> ((error + 'a) \<Rightarrow> 'n event) \<Rightarrow> ('w, 'n, 'a) action" where
  "call f ev w = (case f w of (r, w') \<Rightarrow> (r, [ev r], w'))"

text \<open>\<^verbatim>\<open>try { body } catch (err) { next(err); return; }\<close>\<close>

definition try_catch_next :: "('w, 'n, unit) action \<Rightarrow> ('w, 'n, unit) action" where
  "try_catch_next m w =
     (case m w of
        (Inl e, t, w') \<Rightarrow> (Inr (), t @ [Next e], w')
      | (Inr u, t, w') \<Rightarrow> (Inr u, t, w'))"

text \<open>An \<^verbatim>\<open>async\<close> handler as a whole: an error that escapes rejects its promise.\<close>

definition handler :: "('w, 'n, unit) action \<Rightarrow> 'w \<Rightarrow> 'n event list \<times> 'w" where
  "handler m w =
     (case m w of
        (Inl e, t, w') \<Rightarrow> (t @ [Rejected e], w')
      | (Inr u, t, w') \<Rightarrow> (t, w'))"

section \<open>The controller\<close>

text \<open>The cookie options of the access token and of the refresh token.\<close>

definition accessToken_options :: "('w, 'n) env \<Rightarrow> cookie_options" where
  "accessToken_options env =
     \<lparr>domain = MAIN_DOMAIN env, sameSite = ''strict'',
      maxAge = 1000 * 60 * 60 * 24 * 1, httpOnly = True\<rparr>"

definition refreshToken_options :: "('w, 'n) env \<Rightarrow> cookie_options" where
  "refreshToken_options env =
     \<lparr>domain = MAIN_DOMAIN env, sameSite = ''strict'',
      maxAge = 1000 * 60 * 60 * 24 * 365, httpOnly = True\<rparr>"

text \<open>The payload \<^verbatim>\<open>register\<close> and \<^verbatim>\<open>login\<close> build from the user entity.\<close>

definition user_payload :: "('w, 'n) env \<Rightarrow> 'n user \<Rightarrow> jwt_payload" where
  "user_payload env user =
     \<lparr>jwt_sub = js_String env (user_id user),
      jwt_role = user_role user,
      jwt_tenant = (case user_tenant user of
                      Some t \<Rightarrow> js_String env (tenant_id t)
                    | None \<Rightarrow> ''''),
      jwt_firstName = user_firstName user,
      jwt_lastName = user_lastName user,
      jwt_email = user_email user,
      jwt_id = None\<rparr>"

text \<open>The payload \<^verbatim>\<open>refresh\<close> builds from \<^verbatim>\<open>req.auth\<close>.\<close>

definition auth_payload :: "auth_claims \<Rightarrow> jwt_payload" where
  "auth_payload a =
     \<lparr>jwt_sub = auth_sub a,
      jwt_role = auth_role a,
      jwt_tenant = auth_tenant a,
      jwt_firstName = auth_firstName a,
      jwt_lastName = auth_lastName a,
      jwt_email = auth_email a,
      jwt_id = None\<rparr>"

subsection \<open>Calls on the collaborators\<close>

definition userService_create :: "('w, 'n) env \<Rightarrow> user_data \<Rightarrow> ('w, 'n, 'n user) action" where
  "userService_create env d = call (create env d) (UserService_create d)"

definition userService_findByEmailWithPassword ::
  "('w, 'n) env \<Rightarrow> string \<Rightarrow> ('w, 'n, 'n user option) action" where
  "userService_findByEmailWithPassword env email =
     call (findByEmailWithPassword env email) (UserService_findByEmailWithPassword email)"

definition userService_findById :: "('w, 'n) env \<Rightarrow> 'n \<Rightarrow> ('w, 'n, 'n user option) action" where
  "userService_findById env n = call (findById env n) (UserService_findById n)"

definition credentialService_comparePassword ::
  "('w, 'n) env \<Rightarrow> string \<Rightarrow> string \<Rightarrow> ('w, 'n, bool) action" where
  "credentialService_comparePassword env plain hash =
     call (comparePassword env plain hash) (CredentialService_comparePassword plain hash)"

definition tokenService_generateAccessToken ::
  "('w, 'n) env \<Rightarrow> jwt_payload \<Rightarrow> ('w, 'n, string) action" where
  "tokenService_generateAccessToken env p =
     call (generateAccessToken env p) (TokenService_generateAccessToken p)"

definition tokenService_persistRefreshToken ::
  "('w, 'n) env \<Rightarrow> 'n user \<Rightarrow> ('w, 'n, 'n refresh_token) action" where
  "tokenService_persistRefreshToken env user =
     call (persistRefreshToken env user) (TokenService_persistRefreshToken user)"

definition tokenService_generateRefreshToken ::
  "('w, 'n) env \<Rightarrow> jwt_payload \<Rightarrow> ('w, 'n, string) action" where
  "tokenService_generateRefreshToken env p =
     call (generateRefreshToken env p) (TokenService_generateRefreshToken p)"

definition tokenService_deleteRefreshToken :: "('w, 'n) env \<Rightarrow> 'n \<Rightarrow> ('w, 'n, unit) action" where
  "tokenService_deleteRefreshToken env n =
     call (deleteRefreshToken env n) (TokenService_deleteRefreshToken n)"

subsection \<open>Objects the handlers build\<close>

text \<open>\<^verbatim>\<open>{ errors: result.array() }\<close>, \<^verbatim>\<open>{ id: user.id }\<close> and \<^verbatim>\<open>{ id: req.auth.id }\<close>.\<close>

definition errors_body :: "'n jsval list \<Rightarrow> 'n jsval" where
  "errors_body errs = JObj [(''errors'', JArr errs)]"

definition id_body :: "'n user \<Rightarrow> 'n jsval" where
  "id_body user = JObj [(''id'', JNum (user_id user))]"

definition claim_body :: "string option \<Rightarrow> 'n jsval" where
  "claim_body c = JObj [(''id'', (case c of None \<Rightarrow> JUndefined | Some s \<Rightarrow> JStr s))]"

text \<open>The metadata of the two debug lines, with the password masked as in the source.\<close>

definition register_log :: "'n register_request \<Rightarrow> 'n jsval" where
  "register_log req =
     JObj [(''firstName'', JStr (body_firstName (body req))),
           (''lastName'', JStr (body_lastName (body req))),
           (''email'', JStr (body_email (body req))),
           (''password'', JStr ''******'')]"

definition login_log :: "'n register_request \<Rightarrow> 'n jsval" where
  "login_log req =
     JObj [(''email'', JStr (body_email (body req))),
           (''password'', JStr ''******'')]"

text \<open>The object \<^verbatim>\<open>register\<close> hands to \<^verbatim>\<open>userService.create\<close>.\<close>

definition register_data :: "'n register_request \<Rightarrow> user_data" where
  "register_data req =
     \<lparr>data_firstName = body_firstName (body req),
      data_lastName = body_lastName (body req),
      data_email = body_email (body req),
      data_password = body_password (body req),
      data_role = Roles_CUSTOMER\<rparr>"

text \<open>
  The own enumerable properties that \<^verbatim>\<open>{ ...user }\<close> copies; spreading \<^verbatim>\<open>null\<close> copies
  nothing.
\<close>

definition spread_user :: "'n user option \<Rightarrow> (string \<times> 'n jsval) list" where
  "spread_user found =
     (case found of
        None \<Rightarrow> []
      | Some user \<Rightarrow>
          [(''id'', JNum (user_id user)),
           (''firstName'', JStr (user_firstName user)),
           (''lastName'', JStr (user_lastName user)),
           (''email'', JStr (user_email user)),
           (''password'', JStr (user_password user)),
           (''role'', JStr (user_role user)),
           (''tenant'', (case user_tenant user of
                           None \<Rightarrow> JNull
                         | Some t \<Rightarrow> JObj [(''id'', JNum (tenant_id t))]))])"

text \<open>
  \<^verbatim>\<open>{ ...props, key: value }\<close>: an existing property keeps its place and takes the new value,
  a new one is appended.
\<close>

fun set_property :: "string \<Rightarrow> 'n jsval \<Rightarrow> (string \<times> 'n jsval) list \<Rightarrow> (string \<times> 'n jsval) list" where
  "set_property k v [] = [(k, v)]"
| "set_property k v ((k', v') # ps) =
     (if k' = k then (k, v) # ps else (k', v') # set_property k v ps)"

text \<open>
  What \<^verbatim>\<open>res.json\<close> puts on the wire for an object: \<^verbatim>\<open>JSON.stringify\<close> leaves out the
  properties whose value is \<^verbatim>\<open>undefined\<close>.
\<close>

definition sent_properties :: "(string \<times> 'n jsval) list \<Rightarrow> (string \<times> 'n jsval) list" where
  "sent_properties ps = filter (\<lambda>(k, v). v \<noteq> JUndefined) ps"

subsection \<open>The handlers\<close>

definition register :: "('w, 'n) env \<Rightarrow> 'n register_request \<Rightarrow> 'w \<Rightarrow> 'n event list \<times> 'w" where
  "register env req =
     handler
       (if validation req \<noteq> [] then
          and_then (emit (Res_status 400)) (\<lambda>_.
          emit (Res_json (errors_body (validation req))))
        else
          and_then (emit (Logger_debug ''New request to register a user'' (register_log req)))
            (\<lambda>_.
          try_catch_next
            (and_then (userService_create env (register_data req)) (\<lambda>user.
             and_then (emit (Logger_info ''User has been registered'' (id_body user))) (\<lambda>_.
             and_then (tokenService_generateAccessToken env (user_payload env user)) (\<lambda>accessToken.
             and_then (tokenService_persistRefreshToken env user) (\<lambda>newRefreshToken.
             and_then (tokenService_generateRefreshToken env
                         ((user_payload env user)
                            \<lparr>jwt_id := Some (js_String env (token_id newRefreshToken))\<rparr>))
               (\<lambda>refreshToken.
             and_then (emit (Res_cookie ''accessToken'' accessToken (accessToken_options env))) (\<lambda>_.
             and_then (emit (Res_cookie ''refreshToken'' refreshToken (refreshToken_options env)))
               (\<lambda>_.
             and_then (emit (Res_status 201)) (\<lambda>_.
             emit (Res_json (id_body user)))))))))))))"

definition login :: "('w, 'n) env \<Rightarrow> 'n register_request \<Rightarrow> 'w \<Rightarrow> 'n event list \<times> 'w" where
  "login env req =
     handler
       (if validation req \<noteq> [] then
          and_then (emit (Res_status 400)) (\<lambda>_.
          emit (Res_json (errors_body (validation req))))
        else
          and_then (emit (Logger_debug ''New request to login a user'' (login_log req))) (\<lambda>_.
          try_catch_next
            (and_then (userService_findByEmailWithPassword env (body_email (body req))) (\<lambda>found.
             (case found of
                None \<Rightarrow> emit (Next (createHttpError 400 ''Email or password does not match.''))
              | Some user \<Rightarrow>
                  and_then (credentialService_comparePassword env (body_password (body req))
                              (user_password user)) (\<lambda>passwordMatch.
                  if \<not> passwordMatch then
                    emit (Next (createHttpError 400 ''Email or password does not match.''))
                  else
                    and_then (tokenService_generateAccessToken env (user_payload env user))
                      (\<lambda>accessToken.
                    and_then (tokenService_persistRefreshToken env user) (\<lambda>newRefreshToken.
                    and_then (tokenService_generateRefreshToken env
                                ((user_payload env user)
                                   \<lparr>jwt_id := Some (js_String env (token_id newRefreshToken))\<rparr>))
                      (\<lambda>refreshToken.
                    and_then (emit (Res_cookie ''accessToken'' accessToken
                                (accessToken_options env))) (\<lambda>_.
                    and_then (emit (Res_cookie ''refreshToken'' refreshToken
                                (refreshToken_options env))) (\<lambda>_.
                    and_then (emit (Logger_info ''User has been logged in'' (id_body user))) (\<lambda>_.
                    emit (Res_json (id_body user))))))))))))))"

definition self :: "('w, 'n) env \<Rightarrow> auth_request \<Rightarrow> 'w \<Rightarrow> 'n event list \<times> 'w" where
  "self env req =
     handler
       (and_then (userService_findById env (js_Number env (Some (auth_sub (auth req))))) (\<lambda>user.
        emit (Res_json (JObj (set_property ''password'' JUndefined (spread_user user))))))"

definition refresh :: "('w, 'n) env \<Rightarrow> auth_request \<Rightarrow> 'w \<Rightarrow> 'n event list \<times> 'w" where
  "refresh env req =
     handler
       (try_catch_next
          (and_then (tokenService_generateAccessToken env (auth_payload (auth req))) (\<lambda>accessToken.
           and_then (userService_findById env (js_Number env (Some (auth_sub (auth req)))))
             (\<lambda>found.
           (case found of
              None \<Rightarrow> emit (Next (createHttpError 400 ''User with the token could not find''))
            | Some user \<Rightarrow>
                and_then (tokenService_persistRefreshToken env user) (\<lambda>newRefreshToken.
                and_then (tokenService_deleteRefreshToken env (js_Number env (auth_id (auth req))))
                  (\<lambda>_.
                and_then (tokenService_generateRefreshToken env
                            ((auth_payload (auth req))
                               \<lparr>jwt_id := Some (js_String env (token_id newRefreshToken))\<rparr>))
                  (\<lambda>refreshToken.
                and_then (emit (Res_cookie ''accessToken'' accessToken
                            (accessToken_options env))) (\<lambda>_.
                and_then (emit (Res_cookie ''refreshToken'' refreshToken
                            (refreshToken_options env))) (\<lambda>_.
                and_then (emit (Logger_info ''User has been logged in'' (id_body user))) (\<lambda>_.
                emit (Res_json (id_body user)))))))))))))"

definition logout :: "('w, 'n) env \<Rightarrow> auth_request \<Rightarrow> 'w \<Rightarrow> 'n event list \<times> 'w" where
  "logout env req =
     handler
       (try_catch_next
          (and_then (tokenService_deleteRefreshToken env (js_Number env (auth_id (auth req))))
             (\<lambda>_.
           and_then (emit (Logger_info ''Refresh token has been deleted''
                       (claim_body (auth_id (auth req))))) (\<lambda>_.
           and_then (emit (Logger_info ''User has been logged out''
                       (claim_body (Some (auth_sub (auth req)))))) (\<lambda>_.
           and_then (emit (Res_clearCookie ''accessToken'')) (\<lambda>_.
           and_then (emit (Res_clearCookie ''refreshToken'')) (\<lambda>_.
           emit (Res_json (JObj [])))))))))"

section \<open>Observations on a run\<close>

text \<open>
  What a run of a handler did is read off its event list: the records it asked the token
  service to create and to delete, and what it did on the response object and on
  \<^verbatim>\<open>next\<close> (all that the caller of the handler ever sees).
\<close>

definition is_persist :: "'n event \<Rightarrow> bool" where
  "is_persist ev = (case ev of TokenService_persistRefreshToken u r \<Rightarrow> True | _ \<Rightarrow> False)"

definition is_delete :: "'n event \<Rightarrow> bool" where
  "is_delete ev = (case ev of TokenService_deleteRefreshToken n r \<Rightarrow> True | _ \<Rightarrow> False)"

definition is_cookie :: "'n event \<Rightarrow> bool" where
  "is_cookie ev = (case ev of Res_cookie name v opts \<Rightarrow> True | _ \<Rightarrow> False)"

definition is_clearCookie :: "'n event \<Rightarrow> bool" where
  "is_clearCookie ev = (case ev of Res_clearCookie name \<Rightarrow> True | _ \<Rightarrow> False)"

definition is_response :: "'n event \<Rightarrow> bool" where
  "is_response ev =
     (case ev of
        Res_status s \<Rightarrow> True
      | Res_json b \<Rightarrow> True
      | Res_cookie name v opts \<Rightarrow> True
      | Res_clearCookie name \<Rightarrow> True
      | Next err \<Rightarrow> True
      | Rejected err \<Rightarrow> True
      | _ \<Rightarrow> False)"

definition persists :: "'n event list \<Rightarrow> 'n event list" where
  "persists t = filter is_persist t"

definition deletions :: "'n event list \<Rightarrow> 'n event list" where
  "deletions t = filter is_delete t"

definition cookies :: "'n event list \<Rightarrow> 'n event list" where
  "cookies t = filter is_cookie t"

definition cleared :: "'n event list \<Rightarrow> 'n event list" where
  "cleared t = filter is_clearCookie t"

definition responses :: "'n event list \<Rightarrow> 'n event list" where
  "responses t = filter is_response t"

text \<open>The name and the options of each cookie set, and the value of each, in order.\<close>

fun cookie_attributes :: "'n event list \<Rightarrow> (string \<times> cookie_options) list" where
  "cookie_attributes [] = []"
| "cookie_attributes (Res_cookie name v opts # t) = (name, opts) # cookie_attributes t"
| "cookie_attributes (ev # t) = cookie_attributes t"

fun cookie_values :: "'n event list \<Rightarrow> string list" where
  "cookie_values [] = []"
| "cookie_values (Res_cookie name v opts # t) = v # cookie_values t"
| "cookie_values (ev # t) = cookie_values t"

text \<open>The tokens the token service returned, access or refresh, in order.\<close>

fun signed_tokens :: "'n event list \<Rightarrow> string list" where
  "signed_tokens [] = []"
| "signed_tokens (TokenService_generateAccessToken p (Inr tok) # t) = tok # signed_tokens t"
| "signed_tokens (TokenService_generateRefreshToken p (Inr tok) # t) = tok # signed_tokens t"
| "signed_tokens (ev # t) = signed_tokens t"

text \<open>A property list without the property of a given name.\<close>

definition without_property :: "string \<Rightarrow> (string \<times> 'n jsval) list \<Rightarrow> (string \<times> 'n jsval) list" where
  "without_property k ps = filter (\<lambda>(k', v). k' \<noteq> k) ps"

text \<open>The property names of a JSON body as sent.\<close>

definition sent_keys :: "(string \<times> 'n jsval) list \<Rightarrow> string list" where
  "sent_keys ps = map fst (sent_properties ps)"

section \<open>A reference instance of the collaborators\<close>

text \<open>
  Modelled from the spec: an in-memory Identity Provider, Refresh Token Store and Token
  Issuer (sections 4.2, 4.3 and 6), none of which is in the source file. The theorems below
  hold for every instance of the collaborators; this one is used to run the handlers on
  concrete requests. Numbers are the non-negative integers and \<^verbatim>\<open>NaN\<close>; the conversions are
  the built-in ones on plain decimal numerals, the only strings this instance meets.
\<close>

datatype number = Finite nat | NaN

definition digit_value :: "char \<Rightarrow> nat option" where
  "digit_value c = map_of (zip ''0123456789'' [0, 1, 2, 3, 4, 5, 6, 7, 8, 9]) c"

fun parse_decimal :: "nat \<Rightarrow> string \<Rightarrow> nat option" where
  "parse_decimal acc [] = Some acc"
| "parse_decimal acc (c # cs) =
     (case digit_value c of
        None \<Rightarrow> None
      | Some d \<Rightarrow> parse_decimal (10 * acc + d) cs)"

function decimal :: "nat \<Rightarrow> string" where
  "decimal n =
     (if n < 10 then [''0123456789'' ! n]
      else decimal (n div 10) @ [''0123456789'' ! (n mod 10)])"
  by pat_completeness auto
termination
  by (relation "measure (\<lambda>n. n)") auto

declare decimal.simps [simp del]

definition mem_String :: "number \<Rightarrow> string" where
  "mem_String n = (case n of Finite k \<Rightarrow> decimal k | NaN \<Rightarrow> ''NaN'')"

definition mem_Number :: "string option \<Rightarrow> number" where
  "mem_Number v =
     (case v of
        None \<Rightarrow> NaN
      | Some s \<Rightarrow> (case parse_decimal 0 s of None \<Rightarrow> NaN | Some k \<Rightarrow> Finite k))"

record mem_world =
  identities :: "number user list"
  records :: "number refresh_token list"
  next_identity :: nat
  next_record :: nat
  store_available :: bool

definition hash_password :: "string \<Rightarrow> string" where
  "hash_password plain = ''hash('' @ plain @ '')''"

definition mem_create :: "user_data \<Rightarrow> mem_world \<Rightarrow> (error + number user) \<times> mem_world" where
  "mem_create d w =
     (case find (\<lambda>u. user_email u = data_email d) (identities w) of
        Some u \<Rightarrow> (Inl (HttpError 400 ''Email is already exists!''), w)
      | None \<Rightarrow>
          (Inr \<lparr>user_id = Finite (next_identity w),
                user_firstName = data_firstName d,
                user_lastName = data_lastName d,
                user_email = data_email d,
                user_password = hash_password (data_password d),
                user_role = data_role d,
                user_tenant = None\<rparr>,
           w\<lparr>identities := identities w @
                 [\<lparr>user_id = Finite (next_identity w),
                   user_firstName = data_firstName d,
                   user_lastName = data_lastName d,
                   user_email = data_email d,
                   user_password = hash_password (data_password d),
                   user_role = data_role d,
                   user_tenant = None\<rparr>],
              next_identity := next_identity w + 1\<rparr>))"

definition mem_findByEmailWithPassword ::
  "string \<Rightarrow> mem_world \<Rightarrow> (error + number user option) \<times> mem_world" where
  "mem_findByEmailWithPassword email w = (Inr (find (\<lambda>u. user_email u = email) (identities w)), w)"

definition mem_findById :: "number \<Rightarrow> mem_world \<Rightarrow> (error + number user option) \<times> mem_world" where
  "mem_findById n w = (Inr (find (\<lambda>u. user_id u = n) (identities w)), w)"

definition mem_comparePassword :: "string \<Rightarrow> string \<Rightarrow> mem_world \<Rightarrow> (error + bool) \<times> mem_world" where
  "mem_comparePassword plain hash w = (Inr (hash_password plain = hash), w)"

definition mem_generateAccessToken :: "jwt_payload \<Rightarrow> mem_world \<Rightarrow> (error + string) \<times> mem_world" where
  "mem_generateAccessToken p w = (Inr (''access:'' @ jwt_sub p @ '':'' @ jwt_role p), w)"

definition mem_generateRefreshToken :: "jwt_payload \<Rightarrow> mem_world \<Rightarrow> (error + string) \<times> mem_world" where
  "mem_generateRefreshToken p w =
     (Inr (''refresh:'' @ jwt_sub p @ '':'' @ (case jwt_id p of None \<Rightarrow> [] | Some i \<Rightarrow> i)), w)"

definition mem_persistRefreshToken ::
  "number user \<Rightarrow> mem_world \<Rightarrow> (error + number refresh_token) \<times> mem_world" where
  "mem_persistRefreshToken u w =
     (if \<not> store_available w then (Inl (Thrown ''StoreUnavailable''), w)
      else
        (Inr \<lparr>token_id = Finite (next_record w), token_owner = user_id u\<rparr>,
         w\<lparr>records := records w @
               [\<lparr>token_id = Finite (next_record w), token_owner = user_id u\<rparr>],
            next_record := next_record w + 1\<rparr>))"

definition mem_deleteRefreshToken :: "number \<Rightarrow> mem_world \<Rightarrow> (error + unit) \<times> mem_world" where
  "mem_deleteRefreshToken n w =
     (if \<not> store_available w then (Inl (Thrown ''StoreUnavailable''), w)
      else (Inr (), w\<lparr>records := filter (\<lambda>r. token_id r \<noteq> n) (records w)\<rparr>))"

definition mem_env :: "(mem_world, number) env" where
  "mem_env =
     \<lparr>js_String = mem_String,
      js_Number = mem_Number,
      MAIN_DOMAIN = Some ''localhost'',
      create = mem_create,
      findByEmailWithPassword = mem_findByEmailWithPassword,
      findById = mem_findById,
      comparePassword = mem_comparePassword,
      generateAccessToken = mem_generateAccessToken,
      persistRefreshToken = mem_persistRefreshToken,
      generateRefreshToken = mem_generateRefreshToken,
      deleteRefreshToken = mem_deleteRefreshToken\<rparr>"

subsection \<open>Concrete requests and states\<close>

definition empty_world :: mem_world where
  "empty_world =
     \<lparr>identities = [], records = [], next_identity = 1, next_record = 1,
      store_available = True\<rparr>"

definition alice :: "number user" where
  "alice =
     \<lparr>user_id = Finite 1, user_firstName = ''Alice'', user_lastName = ''Doe'',
      user_email = ''a@b.com'', user_password = ''hash(p1)'', user_role = ''customer'',
      user_tenant = None\<rparr>"

definition alice_record :: "number refresh_token" where
  "alice_record = \<lparr>token_id = Finite 1, token_owner = Finite 1\<rparr>"

definition alice_world :: mem_world where
  "alice_world =
     \<lparr>identities = [alice], records = [alice_record], next_identity = 2, next_record = 2,
      store_available = True\<rparr>"

definition alice_request :: "number register_request" where
  "alice_request =
     \<lparr>validation = [],
      body = \<lparr>body_firstName = ''Alice'', body_lastName = ''Doe'', body_email = ''a@b.com'',
              body_password = ''p1''\<rparr>\<rparr>"

definition wrong_password_request :: "number register_request" where
  "wrong_password_request =
     \<lparr>validation = [],
      body = \<lparr>body_firstName = ''Alice'', body_lastName = ''Doe'', body_email = ''a@b.com'',
              body_password = ''p2''\<rparr>\<rparr>"

text \<open>The claims of the refresh token that \<open>alice_world\<close> issued to Alice.\<close>

definition alice_auth :: auth_request where
  "alice_auth =
     \<lparr>auth = \<lparr>auth_sub = ''1'', auth_role = ''customer'', auth_tenant = [],
              auth_firstName = ''Alice'', auth_lastName = ''Doe'', auth_email = ''a@b.com'',
              auth_id = Some ''1''\<rparr>\<rparr>"

text \<open>Alice after her role was changed to manager, her refresh token still outstanding.\<close>

definition alice_promoted :: "number user" where
  "alice_promoted = alice\<lparr>user_role := ''manager''\<rparr>"

definition promoted_world :: mem_world where
  "promoted_world = alice_world\<lparr>identities := [alice_promoted]\<rparr>"

text \<open>The same states with the refresh-token store out of reach.\<close>

definition empty_world_store_down :: mem_world where
  "empty_world_store_down = empty_world\<lparr>store_available := False\<rparr>"

definition alice_world_store_down :: mem_world where
  "alice_world_store_down = alice_world\<lparr>store_available := False\<rparr>"

section \<open>The runs of each handler\<close>

text \<open>
  Each handler is straight-line code with early exits, so a run is decided by which call
  fails first. The rules below list, for each handler, every possible event list.
\<close>

lemmas action_defs =
  and_then_def emit_def call_def try_catch_next_def handler_def createHttpError_def
  userService_create_def userService_findByEmailWithPassword_def userService_findById_def
  credentialService_comparePassword_def tokenService_generateAccessToken_def
  tokenService_persistRefreshToken_def tokenService_generateRefreshToken_def
  tokenService_deleteRefreshToken_def

lemma register_runs [case_names invalid create_failed sign_failed persist_failed
    sign_refresh_failed delivered]:
  fixes env :: "('w, 'n) env" and req :: "'n register_request"
  obtains
    "validation req \<noteq> []" and
    "fst (register env req w) = [Res_status 400, Res_json (errors_body (validation req))]"
  | e where "fst (register env req w) =
      [Logger_debug ''New request to register a user'' (register_log req),
       UserService_create (register_data req) (Inl e), Next e]"
  | u e where "fst (register env req w) =
      [Logger_debug ''New request to register a user'' (register_log req),
       UserService_create (register_data req) (Inr u),
       Logger_info ''User has been registered'' (id_body u),
       TokenService_generateAccessToken (user_payload env u) (Inl e), Next e]"
  | u tok e where "fst (register env req w) =
      [Logger_debug ''New request to register a user'' (register_log req),
       UserService_create (register_data req) (Inr u),
       Logger_info ''User has been registered'' (id_body u),
       TokenService_generateAccessToken (user_payload env u) (Inr tok),
       TokenService_persistRefreshToken u (Inl e), Next e]"
  | u tok new e where "fst (register env req w) =
      [Logger_debug ''New request to register a user'' (register_log req),
       UserService_create (register_data req) (Inr u),
       Logger_info ''User has been registered'' (id_body u),
       TokenService_generateAccessToken (user_payload env u) (Inr tok),
       TokenService_persistRefreshToken u (Inr new),
       TokenService_generateRefreshToken
         ((user_payload env u)\<lparr>jwt_id := Some (js_String env (token_id new))\<rparr>) (Inl e),
       Next e]"
  | u tok new rtok where "fst (register env req w) =
      [Logger_debug ''New request to register a user'' (register_log req),
       UserService_create (register_data req) (Inr u),
       Logger_info ''User has been registered'' (id_body u),
       TokenService_generateAccessToken (user_payload env u) (Inr tok),
       TokenService_persistRefreshToken u (Inr new),
       TokenService_generateRefreshToken
         ((user_payload env u)\<lparr>jwt_id := Some (js_String env (token_id new))\<rparr>) (Inr rtok),
       Res_cookie ''accessToken'' tok (accessToken_options env),
       Res_cookie ''refreshToken'' rtok (refreshToken_options env),
       Res_status 201, Res_json (id_body u)]"
proof (cases "validation req = []")
  case False
  then show ?thesis using that(1) by (simp add: register_def action_defs)
next
  case valid: True
  obtain r1 w1 where s1: "create env (register_data req) w = (r1, w1)"
    by (cases "create env (register_data req) w")
  show ?thesis
  proof (cases r1)
    case (Inl e)
    then show ?thesis using valid s1 that(2)[of e] by (simp add: register_def action_defs)
  next
    case u: (Inr u)
    obtain r2 w2 where s2: "generateAccessToken env (user_payload env u) w1 = (r2, w2)"
      by (cases "generateAccessToken env (user_payload env u) w1")
    obtain r3 w3 where s3: "persistRefreshToken env u w2 = (r3, w3)"
      by (cases "persistRefreshToken env u w2")
    show ?thesis
    proof (cases r2)
      case (Inl e)
      then show ?thesis using valid s1 u s2 that(3)[of u e]
        by (simp add: register_def action_defs)
    next
      case tok: (Inr tok)
      show ?thesis
      proof (cases r3)
        case (Inl e)
        then show ?thesis using valid s1 u s2 tok s3 that(4)[of u tok e]
          by (simp add: register_def action_defs)
      next
        case new: (Inr new)
        obtain r4 w4 where s4: "generateRefreshToken env
            ((user_payload env u)\<lparr>jwt_id := Some (js_String env (token_id new))\<rparr>) w3 = (r4, w4)"
          by (cases "generateRefreshToken env
            ((user_payload env u)\<lparr>jwt_id := Some (js_String env (token_id new))\<rparr>) w3")
        show ?thesis
        proof (cases r4)
          case (Inl e)
          then show ?thesis using valid s1 u s2 tok s3 new s4 that(5)[of u tok new e]
            by (simp add: register_def action_defs)
        next
          case (Inr rtok)
          then show ?thesis using valid s1 u s2 tok s3 new s4 that(6)[of u tok new rtok]
            by (simp add: register_def action_defs)
        qed
      qed
    qed
  qed
qed

lemma login_runs [case_names invalid lookup_failed unknown_email compare_failed
    wrong_password sign_failed persist_failed sign_refresh_failed delivered]:
  fixes env :: "('w, 'n) env" and req :: "'n register_request"
  obtains
    "validation req \<noteq> []" and
    "fst (login env req w) = [Res_status 400, Res_json (errors_body (validation req))]"
  | e where "fst (login env req w) =
      [Logger_debug ''New request to login a user'' (login_log req),
       UserService_findByEmailWithPassword (body_email (body req)) (Inl e), Next e]"
  | "fst (login env req w) =
      [Logger_debug ''New request to login a user'' (login_log req),
       UserService_findByEmailWithPassword (body_email (body req)) (Inr None),
       Next (HttpError 400 ''Email or password does not match.'')]"
  | u e where "fst (login env req w) =
      [Logger_debug ''New request to login a user'' (login_log req),
       UserService_findByEmailWithPassword (body_email (body req)) (Inr (Some u)),
       CredentialService_comparePassword (body_password (body req)) (user_password u) (Inl e),
       Next e]"
  | u where "fst (login env req w) =
      [Logger_debug ''New request to login a user'' (login_log req),
       UserService_findByEmailWithPassword (body_email (body req)) (Inr (Some u)),
       CredentialService_comparePassword (body_password (body req)) (user_password u) (Inr False),
       Next (HttpError 400 ''Email or password does not match.'')]"
  | u e where "fst (login env req w) =
      [Logger_debug ''New request to login a user'' (login_log req),
       UserService_findByEmailWithPassword (body_email (body req)) (Inr (Some u)),
       CredentialService_comparePassword (body_password (body req)) (user_password u) (Inr True),
       TokenService_generateAccessToken (user_payload env u) (Inl e), Next e]"
  | u tok e where "fst (login env req w) =
      [Logger_debug ''New request to login a user'' (login_log req),
       UserService_findByEmailWithPassword (body_email (body req)) (Inr (Some u)),
       CredentialService_comparePassword (body_password (body req)) (user_password u) (Inr True),
       TokenService_generateAccessToken (user_payload env u) (Inr tok),
       TokenService_persistRefreshToken u (Inl e), Next e]"
  | u tok new e where "fst (login env req w) =
      [Logger_debug ''New request to login a user'' (login_log req),
       UserService_findByEmailWithPassword (body_email (body req)) (Inr (Some u)),
       CredentialService_comparePassword (body_password (body req)) (user_password u) (Inr True),
       TokenService_generateAccessToken (user_payload env u) (Inr tok),
       TokenService_persistRefreshToken u (Inr new),
       TokenService_generateRefreshToken
         ((user_payload env u)\<lparr>jwt_id := Some (js_String env (token_id new))\<rparr>) (Inl e),
       Next e]"
  | u tok new rtok where "fst (login env req w) =
      [Logger_debug ''New request to login a user'' (login_log req),
       UserService_findByEmailWithPassword (body_email (body req)) (Inr (Some u)),
       CredentialService_comparePassword (body_password (body req)) (user_password u) (Inr True),
       TokenService_generateAccessToken (user_payload env u) (Inr tok),
       TokenService_persistRefreshToken u (Inr new),
       TokenService_generateRefreshToken
         ((user_payload env u)\<lparr>jwt_id := Some (js_String env (token_id new))\<rparr>) (Inr rtok),
       Res_cookie ''accessToken'' tok (accessToken_options env),
       Res_cookie ''refreshToken'' rtok (refreshToken_options env),
       Logger_info ''User has been logged in'' (id_body u),
       Res_json (id_body u)]"
proof (cases "validation req = []")
  case False
  then show ?thesis using that(1) by (simp add: login_def action_defs)
next
  case valid: True
  obtain r1 w1 where s1: "findByEmailWithPassword env (body_email (body req)) w = (r1, w1)"
    by (cases "findByEmailWithPassword env (body_email (body req)) w")
  show ?thesis
  proof (cases r1)
    case (Inl e)
    then show ?thesis using valid s1 that(2)[of e] by (simp add: login_def action_defs)
  next
    case found: (Inr found)
    show ?thesis
    proof (cases found)
      case None
      then show ?thesis using valid s1 found that(3) by (simp add: login_def action_defs)
    next
      case u: (Some u)
      obtain r2 w2 where
        s2: "comparePassword env (body_password (body req)) (user_password u) w1 = (r2, w2)"
        by (cases "comparePassword env (body_password (body req)) (user_password u) w1")
      obtain r3 w3 where s3: "generateAccessToken env (user_payload env u) w2 = (r3, w3)"
        by (cases "generateAccessToken env (user_payload env u) w2")
      obtain r4 w4 where s4: "persistRefreshToken env u w3 = (r4, w4)"
        by (cases "persistRefreshToken env u w3")
      show ?thesis
      proof (cases r2)
        case (Inl e)
        then show ?thesis using valid s1 found u s2 that(4)[of u e]
          by (simp add: login_def action_defs)
      next
        case matches: (Inr matches)
        show ?thesis
        proof (cases matches)
          case False
          then show ?thesis using valid s1 found u s2 matches that(5)[of u]
            by (simp add: login_def action_defs)
        next
          case True
          show ?thesis
          proof (cases r3)
            case (Inl e)
            then show ?thesis using valid s1 found u s2 matches True s3 that(6)[of u e]
              by (simp add: login_def action_defs)
          next
            case tok: (Inr tok)
            show ?thesis
            proof (cases r4)
              case (Inl e)
              then show ?thesis using valid s1 found u s2 matches True s3 tok s4 that(7)[of u tok e]
                by (simp add: login_def action_defs)
            next
              case new: (Inr new)
              obtain r5 w5 where s5: "generateRefreshToken env
                  ((user_payload env u)\<lparr>jwt_id := Some (js_String env (token_id new))\<rparr>) w4
                  = (r5, w5)"
                by (cases "generateRefreshToken env
                  ((user_payload env u)\<lparr>jwt_id := Some (js_String env (token_id new))\<rparr>) w4")
              show ?thesis
              proof (cases r5)
                case (Inl e)
                then show ?thesis
                  using valid s1 found u s2 matches True s3 tok s4 new s5 that(8)[of u tok new e]
                  by (simp add: login_def action_defs)
              next
                case (Inr rtok)
                then show ?thesis
                  using valid s1 found u s2 matches True s3 tok s4 new s5 that(9)[of u tok new rtok]
                  by (simp add: login_def action_defs)
              qed
            qed
          qed
        qed
      qed
    qed
  qed
qed

lemma refresh_runs [case_names sign_failed lookup_failed unknown_identity persist_failed
    delete_failed sign_refresh_failed delivered]:
  fixes env :: "('w, 'n) env" and req :: auth_request
  defines "p \<equiv> auth_payload (auth req)"
  defines "n \<equiv> js_Number env (Some (auth_sub (auth req)))"
  defines "old \<equiv> js_Number env (auth_id (auth req))"
  obtains
    e where "fst (refresh env req w) = [TokenService_generateAccessToken p (Inl e), Next e]"
  | tok e where "fst (refresh env req w) =
      [TokenService_generateAccessToken p (Inr tok), UserService_findById n (Inl e), Next e]"
  | tok where "fst (refresh env req w) =
      [TokenService_generateAccessToken p (Inr tok), UserService_findById n (Inr None),
       Next (HttpError 400 ''User with the token could not find'')]"
  | tok u e where "fst (refresh env req w) =
      [TokenService_generateAccessToken p (Inr tok), UserService_findById n (Inr (Some u)),
       TokenService_persistRefreshToken u (Inl e), Next e]"
  | tok u new e where "fst (refresh env req w) =
      [TokenService_generateAccessToken p (Inr tok), UserService_findById n (Inr (Some u)),
       TokenService_persistRefreshToken u (Inr new),
       TokenService_deleteRefreshToken old (Inl e), Next e]"
  | tok u new e where "fst (refresh env req w) =
      [TokenService_generateAccessToken p (Inr tok), UserService_findById n (Inr (Some u)),
       TokenService_persistRefreshToken u (Inr new),
       TokenService_deleteRefreshToken old (Inr ()),
       TokenService_generateRefreshToken
         (p\<lparr>jwt_id := Some (js_String env (token_id new))\<rparr>) (Inl e),
       Next e]"
  | tok u new rtok where "fst (refresh env req w) =
      [TokenService_generateAccessToken p (Inr tok), UserService_findById n (Inr (Some u)),
       TokenService_persistRefreshToken u (Inr new),
       TokenService_deleteRefreshToken old (Inr ()),
       TokenService_generateRefreshToken
         (p\<lparr>jwt_id := Some (js_String env (token_id new))\<rparr>) (Inr rtok),
       Res_cookie ''accessToken'' tok (accessToken_options env),
       Res_cookie ''refreshToken'' rtok (refreshToken_options env),
       Logger_info ''User has been logged in'' (id_body u),
       Res_json (id_body u)]"
proof -
  obtain r1 w1 where s1: "generateAccessToken env p w = (r1, w1)"
    by (cases "generateAccessToken env p w")
  obtain r2 w2 where s2: "findById env n w1 = (r2, w2)"
    by (cases "findById env n w1")
  show thesis
  proof (cases r1)
    case (Inl e)
    then show ?thesis using s1 that(1)[of e] by (simp add: refresh_def action_defs p_def)
  next
    case tok: (Inr tok)
    show ?thesis
    proof (cases r2)
      case (Inl e)
      then show ?thesis using s1 tok s2 that(2)[of tok e]
        by (simp add: refresh_def action_defs p_def n_def)
    next
      case found: (Inr found)
      show ?thesis
      proof (cases found)
        case None
        then show ?thesis using s1 tok s2 found that(3)[of tok]
          by (simp add: refresh_def action_defs p_def n_def)
      next
        case u: (Some u)
        obtain r3 w3 where s3: "persistRefreshToken env u w2 = (r3, w3)"
          by (cases "persistRefreshToken env u w2")
        obtain r4 w4 where s4: "deleteRefreshToken env old w3 = (r4, w4)"
          by (cases "deleteRefreshToken env old w3")
        show ?thesis
        proof (cases r3)
          case (Inl e)
          then show ?thesis using s1 tok s2 found u s3 that(4)[of tok u e]
            by (simp add: refresh_def action_defs p_def n_def)
        next
          case new: (Inr new)
          obtain r5 w5 where s5: "generateRefreshToken env
              (p\<lparr>jwt_id := Some (js_String env (token_id new))\<rparr>) w4 = (r5, w5)"
            by (cases "generateRefreshToken env
              (p\<lparr>jwt_id := Some (js_String env (token_id new))\<rparr>) w4")
          show ?thesis
          proof (cases r4)
            case (Inl e)
            then show ?thesis using s1 tok s2 found u s3 new s4 that(5)[of tok u new e]
              by (simp add: refresh_def action_defs p_def n_def old_def)
          next
            case deleted: (Inr x)
            show ?thesis
            proof (cases r5)
              case (Inl e)
              then show ?thesis
                using s1 tok s2 found u s3 new s4 deleted s5 that(6)[of tok u new e]
                by (simp add: refresh_def action_defs p_def n_def old_def)
            next
              case (Inr rtok)
              then show ?thesis
                using s1 tok s2 found u s3 new s4 deleted s5 that(7)[of tok u new rtok]
                by (simp add: refresh_def action_defs p_def n_def old_def)
            qed
          qed
        qed
      qed
    qed
  qed
qed

lemma logout_runs [case_names delete_failed cleared]:
  fixes env :: "('w, 'n) env" and req :: auth_request
  obtains
    e where "fst (logout env req w) =
      [TokenService_deleteRefreshToken (js_Number env (auth_id (auth req))) (Inl e), Next e]"
  | "fst (logout env req w) =
      [TokenService_deleteRefreshToken (js_Number env (auth_id (auth req))) (Inr ()),
       Logger_info ''Refresh token has been deleted'' (claim_body (auth_id (auth req))),
       Logger_info ''User has been logged out'' (claim_body (Some (auth_sub (auth req)))),
       Res_clearCookie ''accessToken'', Res_clearCookie ''refreshToken'',
       Res_json (JObj [])]"
proof -
  obtain r1 w1 where s1: "deleteRefreshToken env (js_Number env (auth_id (auth req))) w = (r1, w1)"
    by (cases "deleteRefreshToken env (js_Number env (auth_id (auth req))) w")
  show thesis
  proof (cases r1)
    case (Inl e)
    then show ?thesis using s1 that(1)[of e] by (simp add: logout_def action_defs)
  next
    case (Inr x)
    then show ?thesis using s1 that(2) by (simp add: logout_def action_defs)
  qed
qed

lemma self_runs [case_names lookup_failed answered]:
  fixes env :: "('w, 'n) env" and req :: auth_request
  obtains
    e where "fst (self env req w) =
      [UserService_findById (js_Number env (Some (auth_sub (auth req)))) (Inl e), Rejected e]"
  | found where "fst (self env req w) =
      [UserService_findById (js_Number env (Some (auth_sub (auth req)))) (Inr found),
       Res_json (JObj (set_property ''password'' JUndefined (spread_user found)))]"
proof -
  obtain r1 w1 where s1: "findById env (js_Number env (Some (auth_sub (auth req)))) w = (r1, w1)"
    by (cases "findById env (js_Number env (Some (auth_sub (auth req)))) w")
  show thesis
  proof (cases r1)
    case (Inl e)
    then show ?thesis using s1 that(1)[of e] by (simp add: self_def action_defs)
  next
    case (Inr found)
    then show ?thesis using s1 that(2)[of found] by (simp add: self_def action_defs)
  qed
qed

section \<open>Runs of the reference instance\<close>

lemmas observation_defs =
  persists_def deletions_def cookies_def cleared_def responses_def
  is_persist_def is_delete_def is_cookie_def is_clearCookie_def is_response_def

lemmas mem_defs =
  mem_env_def mem_String_def mem_Number_def mem_create_def mem_findByEmailWithPassword_def
  mem_findById_def mem_comparePassword_def mem_generateAccessToken_def
  mem_generateRefreshToken_def mem_persistRefreshToken_def mem_deleteRefreshToken_def
  hash_password_def decimal.simps digit_value_def empty_world_def alice_def alice_record_def alice_world_def
  alice_request_def wrong_password_request_def alice_auth_def alice_promoted_def
  promoted_world_def empty_world_store_down_def alice_world_store_down_def

lemmas object_defs =
  user_payload_def auth_payload_def register_data_def register_log_def login_log_def
  id_body_def claim_body_def errors_body_def Roles_CUSTOMER_def
  accessToken_options_def refreshToken_options_def

lemma alice_registers:
  "fst (register mem_env alice_request empty_world) =
     [Logger_debug ''New request to register a user'' (register_log alice_request),
      UserService_create (register_data alice_request) (Inr alice),
      Logger_info ''User has been registered'' (id_body alice),
      TokenService_generateAccessToken (user_payload mem_env alice) (Inr ''access:1:customer''),
      TokenService_persistRefreshToken alice (Inr alice_record),
      TokenService_generateRefreshToken ((user_payload mem_env alice)\<lparr>jwt_id := Some ''1''\<rparr>)
        (Inr ''refresh:1:1''),
      Res_cookie ''accessToken'' ''access:1:customer'' (accessToken_options mem_env),
      Res_cookie ''refreshToken'' ''refresh:1:1'' (refreshToken_options mem_env),
      Res_status 201, Res_json (id_body alice)]"
  by (simp add: register_def action_defs mem_defs object_defs)

lemma alice_registers_state: "snd (register mem_env alice_request empty_world) = alice_world"
  by (simp add: register_def action_defs mem_defs object_defs)

lemma alice_registers_store_down:
  "fst (register mem_env alice_request empty_world_store_down) =
     [Logger_debug ''New request to register a user'' (register_log alice_request),
      UserService_create (register_data alice_request) (Inr alice),
      Logger_info ''User has been registered'' (id_body alice),
      TokenService_generateAccessToken (user_payload mem_env alice) (Inr ''access:1:customer''),
      TokenService_persistRefreshToken alice (Inl (Thrown ''StoreUnavailable'')),
      Next (Thrown ''StoreUnavailable'')]"
  by (simp add: register_def action_defs mem_defs object_defs)

lemma alice_logs_in:
  "fst (login mem_env alice_request alice_world) =
     [Logger_debug ''New request to login a user'' (login_log alice_request),
      UserService_findByEmailWithPassword ''a@b.com'' (Inr (Some alice)),
      CredentialService_comparePassword ''p1'' ''hash(p1)'' (Inr True),
      TokenService_generateAccessToken (user_payload mem_env alice) (Inr ''access:1:customer''),
      TokenService_persistRefreshToken alice (Inr \<lparr>token_id = Finite 2, token_owner = Finite 1\<rparr>),
      TokenService_generateRefreshToken ((user_payload mem_env alice)\<lparr>jwt_id := Some ''2''\<rparr>)
        (Inr ''refresh:1:2''),
      Res_cookie ''accessToken'' ''access:1:customer'' (accessToken_options mem_env),
      Res_cookie ''refreshToken'' ''refresh:1:2'' (refreshToken_options mem_env),
      Logger_info ''User has been logged in'' (id_body alice),
      Res_json (id_body alice)]"
  by (simp add: login_def action_defs mem_defs object_defs)

lemma alice_logs_in_store_down:
  "fst (login mem_env alice_request alice_world_store_down) =
     [Logger_debug ''New request to login a user'' (login_log alice_request),
      UserService_findByEmailWithPassword ''a@b.com'' (Inr (Some alice)),
      CredentialService_comparePassword ''p1'' ''hash(p1)'' (Inr True),
      TokenService_generateAccessToken (user_payload mem_env alice) (Inr ''access:1:customer''),
      TokenService_persistRefreshToken alice (Inl (Thrown ''StoreUnavailable'')),
      Next (Thrown ''StoreUnavailable'')]"
  by (simp add: login_def action_defs mem_defs object_defs)

lemma unknown_email_login:
  "fst (login mem_env alice_request empty_world) =
     [Logger_debug ''New request to login a user'' (login_log alice_request),
      UserService_findByEmailWithPassword ''a@b.com'' (Inr None),
      Next (HttpError 400 ''Email or password does not match.'')]"
  by (simp add: login_def action_defs mem_defs object_defs)

lemma wrong_password_login:
  "fst (login mem_env wrong_password_request alice_world) =
     [Logger_debug ''New request to login a user'' (login_log wrong_password_request),
      UserService_findByEmailWithPassword ''a@b.com'' (Inr (Some alice)),
      CredentialService_comparePassword ''p2'' ''hash(p1)'' (Inr False),
      Next (HttpError 400 ''Email or password does not match.'')]"
  by (simp add: login_def action_defs mem_defs object_defs)

lemma alice_refreshes:
  "fst (refresh mem_env alice_auth alice_world) =
     [TokenService_generateAccessToken (auth_payload (auth alice_auth)) (Inr ''access:1:customer''),
      UserService_findById (Finite 1) (Inr (Some alice)),
      TokenService_persistRefreshToken alice (Inr \<lparr>token_id = Finite 2, token_owner = Finite 1\<rparr>),
      TokenService_deleteRefreshToken (Finite 1) (Inr ()),
      TokenService_generateRefreshToken ((auth_payload (auth alice_auth))\<lparr>jwt_id := Some ''2''\<rparr>)
        (Inr ''refresh:1:2''),
      Res_cookie ''accessToken'' ''access:1:customer'' (accessToken_options mem_env),
      Res_cookie ''refreshToken'' ''refresh:1:2'' (refreshToken_options mem_env),
      Logger_info ''User has been logged in'' (id_body alice),
      Res_json (id_body alice)]"
  by (simp add: refresh_def action_defs mem_defs object_defs)

lemma promoted_alice_refreshes:
  "fst (refresh mem_env alice_auth promoted_world) =
     [TokenService_generateAccessToken (auth_payload (auth alice_auth)) (Inr ''access:1:customer''),
      UserService_findById (Finite 1) (Inr (Some alice_promoted)),
      TokenService_persistRefreshToken alice_promoted
        (Inr \<lparr>token_id = Finite 2, token_owner = Finite 1\<rparr>),
      TokenService_deleteRefreshToken (Finite 1) (Inr ()),
      TokenService_generateRefreshToken ((auth_payload (auth alice_auth))\<lparr>jwt_id := Some ''2''\<rparr>)
        (Inr ''refresh:1:2''),
      Res_cookie ''accessToken'' ''access:1:customer'' (accessToken_options mem_env),
      Res_cookie ''refreshToken'' ''refresh:1:2'' (refreshToken_options mem_env),
      Logger_info ''User has been logged in'' (id_body alice_promoted),
      Res_json (id_body alice_promoted)]"
  by (simp add: refresh_def action_defs mem_defs object_defs)

lemma deleted_identity_refreshes:
  "fst (refresh mem_env alice_auth empty_world) =
     [TokenService_generateAccessToken (auth_payload (auth alice_auth)) (Inr ''access:1:customer''),
      UserService_findById (Finite 1) (Inr None),
      Next (HttpError 400 ''User with the token could not find'')]"
  by (simp add: refresh_def action_defs mem_defs object_defs)

lemma alice_logs_out:
  "fst (logout mem_env alice_auth alice_world) =
     [TokenService_deleteRefreshToken (Finite 1) (Inr ()),
      Logger_info ''Refresh token has been deleted'' (claim_body (Some ''1'')),
      Logger_info ''User has been logged out'' (claim_body (Some ''1'')),
      Res_clearCookie ''accessToken'', Res_clearCookie ''refreshToken'',
      Res_json (JObj [])]"
  by (simp add: logout_def action_defs mem_defs object_defs)

lemma alice_logs_out_store_down:
  "fst (logout mem_env alice_auth alice_world_store_down) =
     [TokenService_deleteRefreshToken (Finite 1) (Inl (Thrown ''StoreUnavailable'')),
      Next (Thrown ''StoreUnavailable'')]"
  by (simp add: logout_def action_defs mem_defs object_defs)

lemma alice_asks_self:
  "fst (self mem_env alice_auth alice_world) =
     [UserService_findById (Finite 1) (Inr (Some alice)),
      Res_json (JObj
        [(''id'', JNum (Finite 1)), (''firstName'', JStr ''Alice''), (''lastName'', JStr ''Doe''),
         (''email'', JStr ''a@b.com''), (''password'', JUndefined), (''role'', JStr ''customer''),
         (''tenant'', JNull)])]"
  by (simp add: self_def action_defs mem_defs object_defs spread_user_def)

lemma alice_presented_ids:
  "js_Number mem_env (auth_id (auth alice_auth)) = Finite 1"
  "js_Number mem_env (Some (auth_sub (auth alice_auth))) = Finite 1"
  by (simp_all add: mem_defs)

lemma alice_record_string: "js_String mem_env (token_id alice_record) = ''1''"
  by (simp add: mem_defs)

lemma deleted_identity_refreshes_state:
  "snd (refresh mem_env alice_auth empty_world) = empty_world"
  by (simp add: refresh_def action_defs mem_defs object_defs)

section \<open>Rotation order\<close>

text \<open>
  Claim C1. In a refresh call, the new refresh-token record is created strictly before the old
  one is deleted: wherever a \<^verbatim>\<open>deleteRefreshToken\<close> call occurs in a run of \<^verbatim>\<open>refresh\<close>, a
  \<^verbatim>\<open>persistRefreshToken\<close> call that returned a record occurs earlier in the run, no
  \<^verbatim>\<open>persistRefreshToken\<close> call occurs later, and the deletion is on the number converted from
  the id claim of the presented token. The flow is create-then-delete, never
  delete-then-create.
\<close>

theorem refresh_create_then_delete:
  assumes "fst (refresh env req w) = pre @ d # post" and "is_delete d"
  shows "(\<exists>u new. TokenService_persistRefreshToken u (Inr new) \<in> set pre)
       \<and> (\<forall>ev \<in> set post. \<not> is_persist ev)
       \<and> (\<exists>r. d = TokenService_deleteRefreshToken (js_Number env (auth_id (auth req))) r)"
proof (cases rule: refresh_runs[of env req w])
  case (sign_failed e)
  with assms show ?thesis by (auto simp: Cons_eq_append_conv is_delete_def)
next
  case (lookup_failed tok e)
  with assms show ?thesis by (auto simp: Cons_eq_append_conv is_delete_def)
next
  case (unknown_identity tok)
  with assms show ?thesis by (auto simp: Cons_eq_append_conv is_delete_def)
next
  case (persist_failed tok u e)
  with assms show ?thesis by (auto simp: Cons_eq_append_conv is_delete_def)
next
  case (delete_failed tok u new e)
  with assms show ?thesis by (auto simp: Cons_eq_append_conv is_delete_def is_persist_def)
next
  case (sign_refresh_failed tok u new e)
  with assms show ?thesis by (auto simp: Cons_eq_append_conv is_delete_def is_persist_def)
next
  case (delivered tok u new rtok)
  with assms show ?thesis by (auto simp: Cons_eq_append_conv is_delete_def is_persist_def)
qed

theorem refresh_create_then_delete_witness:
  "fst (refresh mem_env alice_auth alice_world) =
     take 3 (fst (refresh mem_env alice_auth alice_world))
       @ TokenService_deleteRefreshToken (Finite 1) (Inr ())
       # drop 4 (fst (refresh mem_env alice_auth alice_world))
   \<and> is_delete (TokenService_deleteRefreshToken (Finite 1) (Inr ()) :: number event)
   \<and> TokenService_persistRefreshToken alice (Inr \<lparr>token_id = Finite 2, token_owner = Finite 1\<rparr>)
        \<in> set (take 3 (fst (refresh mem_env alice_auth alice_world)))
   \<and> list_all (\<lambda>ev. \<not> is_persist ev) (drop 4 (fst (refresh mem_env alice_auth alice_world)))
   \<and> js_Number mem_env (auth_id (auth alice_auth)) = Finite 1"
  using refresh_create_then_delete[of mem_env alice_auth alice_world
      "take 3 (fst (refresh mem_env alice_auth alice_world))"
      "TokenService_deleteRefreshToken (Finite 1) (Inr ())"
      "drop 4 (fst (refresh mem_env alice_auth alice_world))"]
  by (simp add: alice_refreshes alice_presented_ids is_delete_def is_persist_def)

section \<open>Login failures\<close>

text \<open>
  Claim C2. A login for which no identity exists for the email, and a login for which the
  identity exists but the password comparison fails, report the identical error to the
  caller: in both runs the only thing done on the response side is \<^verbatim>\<open>next\<close> with the 400
  error \<^verbatim>\<open>"Email or password does not match."\<close>, so the caller cannot tell which check failed.
\<close>

theorem login_failures_indistinguishable:
  assumes "UserService_findByEmailWithPassword email (Inr None) \<in> set (fst (login env req w))"
    and "CredentialService_comparePassword plain hash (Inr False) \<in> set (fst (login env req' w'))"
  shows "responses (fst (login env req w)) = [Next (HttpError 400 ''Email or password does not match.'')]
       \<and> responses (fst (login env req' w')) = responses (fst (login env req w))"
proof -
  have unknown: "responses (fst (login env req w)) =
      [Next (HttpError 400 ''Email or password does not match.'')]"
    using assms(1)
    by (cases rule: login_runs[of req env w]) (auto simp: responses_def is_response_def)
  have wrong: "responses (fst (login env req' w')) =
      [Next (HttpError 400 ''Email or password does not match.'')]"
    using assms(2)
    by (cases rule: login_runs[of req' env w']) (auto simp: responses_def is_response_def)
  from unknown wrong show ?thesis by simp
qed

theorem login_failures_indistinguishable_witness:
  "UserService_findByEmailWithPassword ''a@b.com'' (Inr None)
     \<in> set (fst (login mem_env alice_request empty_world))
   \<and> CredentialService_comparePassword ''p2'' ''hash(p1)'' (Inr False)
     \<in> set (fst (login mem_env wrong_password_request alice_world))
   \<and> responses (fst (login mem_env alice_request empty_world)) =
       [Next (HttpError 400 ''Email or password does not match.'')]
   \<and> responses (fst (login mem_env wrong_password_request alice_world)) =
       responses (fst (login mem_env alice_request empty_world))"
  using login_failures_indistinguishable[of "''a@b.com''" mem_env alice_request empty_world
      "''p2''" "''hash(p1)''" wrong_password_request alice_world]
  by (simp add: unknown_email_login wrong_password_login)

section \<open>Failure of the refresh-token store\<close>

text \<open>
  Claim C3. In a register flow and in a login flow, if \<^verbatim>\<open>persistRefreshToken\<close> fails, the error
  it raised is handed to \<^verbatim>\<open>next\<close> and that is all the caller gets: no cookie is set, neither
  \<^verbatim>\<open>accessToken\<close> nor \<^verbatim>\<open>refreshToken\<close>, although the access token had been generated
  before.
\<close>

theorem persist_failure_aborts_issuance:
  "(TokenService_persistRefreshToken u (Inl e) \<in> set (fst (register env req w)) \<longrightarrow>
      responses (fst (register env req w)) = [Next e]
    \<and> cookies (fst (register env req w)) = []
    \<and> (\<exists>tok. TokenService_generateAccessToken (user_payload env u) (Inr tok)
          \<in> set (fst (register env req w))))
 \<and> (TokenService_persistRefreshToken u (Inl e) \<in> set (fst (login env req w)) \<longrightarrow>
      responses (fst (login env req w)) = [Next e]
    \<and> cookies (fst (login env req w)) = []
    \<and> (\<exists>tok. TokenService_generateAccessToken (user_payload env u) (Inr tok)
          \<in> set (fst (login env req w))))"
proof (intro conjI impI)
  assume failed: "TokenService_persistRefreshToken u (Inl e) \<in> set (fst (register env req w))"
  then show "responses (fst (register env req w)) = [Next e]"
    by (cases rule: register_runs[of req env w]) (auto simp: responses_def is_response_def)
  from failed show "cookies (fst (register env req w)) = []"
    by (cases rule: register_runs[of req env w]) (auto simp: cookies_def is_cookie_def)
  from failed show "\<exists>tok. TokenService_generateAccessToken (user_payload env u) (Inr tok)
      \<in> set (fst (register env req w))"
    by (cases rule: register_runs[of req env w]) auto
next
  assume failed: "TokenService_persistRefreshToken u (Inl e) \<in> set (fst (login env req w))"
  then show "responses (fst (login env req w)) = [Next e]"
    by (cases rule: login_runs[of req env w]) (auto simp: responses_def is_response_def)
  from failed show "cookies (fst (login env req w)) = []"
    by (cases rule: login_runs[of req env w]) (auto simp: cookies_def is_cookie_def)
  from failed show "\<exists>tok. TokenService_generateAccessToken (user_payload env u) (Inr tok)
      \<in> set (fst (login env req w))"
    by (cases rule: login_runs[of req env w]) auto
qed

theorem persist_failure_aborts_issuance_witness:
  "TokenService_persistRefreshToken alice (Inl (Thrown ''StoreUnavailable''))
     \<in> set (fst (register mem_env alice_request empty_world_store_down))
   \<and> responses (fst (register mem_env alice_request empty_world_store_down)) =
       [Next (Thrown ''StoreUnavailable'')]
   \<and> cookies (fst (register mem_env alice_request empty_world_store_down)) = []
   \<and> TokenService_persistRefreshToken alice (Inl (Thrown ''StoreUnavailable''))
     \<in> set (fst (login mem_env alice_request alice_world_store_down))
   \<and> responses (fst (login mem_env alice_request alice_world_store_down)) =
       [Next (Thrown ''StoreUnavailable'')]
   \<and> cookies (fst (login mem_env alice_request alice_world_store_down)) = []"
  using persist_failure_aborts_issuance[of alice "Thrown ''StoreUnavailable''" mem_env
      alice_request empty_world_store_down]
    persist_failure_aborts_issuance[of alice "Thrown ''StoreUnavailable''" mem_env
      alice_request alice_world_store_down]
  by (simp add: alice_registers_store_down alice_logs_in_store_down)

section \<open>Claims of the renewed access token\<close>

text \<open>
  Claim C4, as the source has it. In a refresh call the access token is generated first, from
  the claims carried in the presented token (\<^verbatim>\<open>sub\<close>, \<^verbatim>\<open>role\<close>, \<^verbatim>\<open>tenant\<close>, \<^verbatim>\<open>firstName\<close>,
  \<^verbatim>\<open>lastName\<close>, \<^verbatim>\<open>email\<close> copied from \<^verbatim>\<open>req.auth\<close>), and it is the only access token the run
  generates and the one delivered in the \<^verbatim>\<open>accessToken\<close> cookie. The identity is resolved
  only afterwards, by the number converted from \<^verbatim>\<open>sub\<close>, and serves to check that it still
  exists and as the owner handed to \<^verbatim>\<open>persistRefreshToken\<close>.
\<close>

theorem refresh_access_token_from_presented_claims:
  "\<exists>r rest. fst (refresh env req w) =
       TokenService_generateAccessToken (auth_payload (auth req)) r # rest
     \<and> (\<forall>p r'. TokenService_generateAccessToken p r' \<notin> set rest)
     \<and> (\<forall>tok opts. Res_cookie ''accessToken'' tok opts \<in> set rest \<longrightarrow> r = Inr tok)
     \<and> (\<forall>n r'. UserService_findById n r' \<in> set rest \<longrightarrow>
           n = js_Number env (Some (auth_sub (auth req))))
     \<and> (\<forall>u r'. TokenService_persistRefreshToken u r' \<in> set rest \<longrightarrow>
           UserService_findById (js_Number env (Some (auth_sub (auth req)))) (Inr (Some u))
             \<in> set rest)"
proof (cases rule: refresh_runs[of env req w])
  case (sign_failed e)
  then show ?thesis by simp
next
  case (lookup_failed tok e)
  then show ?thesis by simp
next
  case (unknown_identity tok)
  then show ?thesis by simp
next
  case (persist_failed tok u e)
  then show ?thesis by simp
next
  case (delete_failed tok u new e)
  then show ?thesis by simp
next
  case (sign_refresh_failed tok u new e)
  then show ?thesis by simp
next
  case (delivered tok u new rtok)
  then show ?thesis by simp
qed

theorem refresh_access_token_from_presented_claims_witness:
  "hd (fst (refresh mem_env alice_auth promoted_world)) =
     TokenService_generateAccessToken (auth_payload (auth alice_auth)) (Inr ''access:1:customer'')
   \<and> Res_cookie ''accessToken'' ''access:1:customer'' (accessToken_options mem_env)
       \<in> set (tl (fst (refresh mem_env alice_auth promoted_world)))
   \<and> UserService_findById (Finite 1) (Inr (Some alice_promoted))
       \<in> set (tl (fst (refresh mem_env alice_auth promoted_world)))"
proof -
  from refresh_access_token_from_presented_claims[of mem_env alice_auth promoted_world]
  obtain r rest where
    run: "fst (refresh mem_env alice_auth promoted_world) =
      TokenService_generateAccessToken (auth_payload (auth alice_auth)) r # rest"
    by (elim exE conjE)
  from run have "rest = tl (fst (refresh mem_env alice_auth promoted_world))"
    by simp
  with run show ?thesis
    by (simp add: promoted_alice_refreshes)
qed

text \<open>
  The claim as stated fails: Alice's role was changed to manager after her refresh token was
  issued with role customer. The refresh signs the access token from the presented claims
  before it looks the identity up, so the delivered token still says customer, which is not
  the payload built from the re-resolved identity.
\<close>

theorem refresh_fresh_claims_counterexample:
  "fst (refresh mem_env alice_auth promoted_world) ! 0 =
     TokenService_generateAccessToken (auth_payload (auth alice_auth)) (Inr ''access:1:customer'')
   \<and> fst (refresh mem_env alice_auth promoted_world) ! 1 =
     UserService_findById (Finite 1) (Inr (Some alice_promoted))
   \<and> fst (refresh mem_env alice_auth promoted_world) ! 5 =
     Res_cookie ''accessToken'' ''access:1:customer'' (accessToken_options mem_env)
   \<and> auth_payload (auth alice_auth) \<noteq> user_payload mem_env alice_promoted
   \<and> jwt_role (auth_payload (auth alice_auth)) = ''customer''
   \<and> jwt_role (user_payload mem_env alice_promoted) = ''manager''"
proof -
  have "jwt_role (auth_payload (auth alice_auth)) = ''customer''"
    by (simp add: auth_payload_def alice_auth_def)
  moreover have "jwt_role (user_payload mem_env alice_promoted) = ''manager''"
    by (simp add: user_payload_def alice_promoted_def)
  moreover from calculation
  have "auth_payload (auth alice_auth) \<noteq> user_payload mem_env alice_promoted"
    by auto
  ultimately show ?thesis
    by (simp add: promoted_alice_refreshes)
qed

section \<open>Binding of the refresh token to its record\<close>

lemma register_signs_after_persist:
  assumes "fst (register env req w) = pre @ TokenService_generateRefreshToken p r # post"
  shows "\<exists>u new. TokenService_persistRefreshToken u (Inr new) \<in> set pre
      \<and> persists (fst (register env req w)) = [TokenService_persistRefreshToken u (Inr new)]
      \<and> jwt_id p = Some (js_String env (token_id new))"
proof (cases rule: register_runs[of req env w])
  case invalid
  with assms show ?thesis by (auto simp: Cons_eq_append_conv)
next
  case (create_failed e)
  with assms show ?thesis by (auto simp: Cons_eq_append_conv)
next
  case (sign_failed u e)
  with assms show ?thesis by (auto simp: Cons_eq_append_conv)
next
  case (persist_failed u tok e)
  with assms show ?thesis by (auto simp: Cons_eq_append_conv)
next
  case (sign_refresh_failed u tok new e)
  with assms have "pre = take 5 (fst (register env req w))"
    by (auto simp: Cons_eq_append_conv)
  with assms sign_refresh_failed show ?thesis
    by (auto simp: persists_def is_persist_def)
next
  case (delivered u tok new rtok)
  with assms have "pre = take 5 (fst (register env req w))"
    by (auto simp: Cons_eq_append_conv)
  with assms delivered show ?thesis
    by (auto simp: persists_def is_persist_def)
qed

lemma login_signs_after_persist:
  assumes "fst (login env req w) = pre @ TokenService_generateRefreshToken p r # post"
  shows "\<exists>u new. TokenService_persistRefreshToken u (Inr new) \<in> set pre
      \<and> persists (fst (login env req w)) = [TokenService_persistRefreshToken u (Inr new)]
      \<and> jwt_id p = Some (js_String env (token_id new))"
proof (cases rule: login_runs[of req env w])
  case invalid
  with assms show ?thesis by (auto simp: Cons_eq_append_conv)
next
  case (lookup_failed e)
  with assms show ?thesis by (auto simp: Cons_eq_append_conv)
next
  case unknown_email
  with assms show ?thesis by (auto simp: Cons_eq_append_conv)
next
  case (compare_failed u e)
  with assms show ?thesis by (auto simp: Cons_eq_append_conv)
next
  case (wrong_password u)
  with assms show ?thesis by (auto simp: Cons_eq_append_conv)
next
  case (sign_failed u e)
  with assms show ?thesis by (auto simp: Cons_eq_append_conv)
next
  case (persist_failed u tok e)
  with assms show ?thesis by (auto simp: Cons_eq_append_conv)
next
  case (sign_refresh_failed u tok new e)
  with assms have "pre = take 5 (fst (login env req w))"
    by (auto simp: Cons_eq_append_conv)
  with assms sign_refresh_failed show ?thesis
    by (auto simp: persists_def is_persist_def)
next
  case (delivered u tok new rtok)
  with assms have "pre = take 5 (fst (login env req w))"
    by (auto simp: Cons_eq_append_conv)
  with assms delivered show ?thesis
    by (auto simp: persists_def is_persist_def)
qed

lemma refresh_signs_after_persist:
  assumes "fst (refresh env req w) = pre @ TokenService_generateRefreshToken p r # post"
  shows "\<exists>u new. TokenService_persistRefreshToken u (Inr new) \<in> set pre
      \<and> persists (fst (refresh env req w)) = [TokenService_persistRefreshToken u (Inr new)]
      \<and> jwt_id p = Some (js_String env (token_id new))"
proof (cases rule: refresh_runs[of env req w])
  case (sign_failed e)
  with assms show ?thesis by (auto simp: Cons_eq_append_conv)
next
  case (lookup_failed tok e)
  with assms show ?thesis by (auto simp: Cons_eq_append_conv)
next
  case (unknown_identity tok)
  with assms show ?thesis by (auto simp: Cons_eq_append_conv)
next
  case (persist_failed tok u e)
  with assms show ?thesis by (auto simp: Cons_eq_append_conv)
next
  case (delete_failed tok u new e)
  with assms show ?thesis by (auto simp: Cons_eq_append_conv)
next
  case (sign_refresh_failed tok u new e)
  with assms have "pre = take 4 (fst (refresh env req w))"
    by (auto simp: Cons_eq_append_conv)
  with assms sign_refresh_failed show ?thesis
    by (auto simp: persists_def is_persist_def)
next
  case (delivered tok u new rtok)
  with assms have "pre = take 4 (fst (refresh env req w))"
    by (auto simp: Cons_eq_append_conv)
  with assms delivered show ?thesis
    by (auto simp: persists_def is_persist_def)
qed

text \<open>
  Claim C5. In each flow that issues a refresh token (register, login, refresh), wherever the
  refresh token is signed, a \<^verbatim>\<open>persistRefreshToken\<close> call that returned a record occurs earlier
  in the run, it is the only \<^verbatim>\<open>persistRefreshToken\<close> call of the run, and the payload signed
  carries as its \<^verbatim>\<open>id\<close> claim the string conversion of the id of that record.
\<close>

theorem refresh_token_embeds_persisted_id:
  "(fst (register env req w) = pre @ TokenService_generateRefreshToken p r # post \<longrightarrow>
      (\<exists>u new. TokenService_persistRefreshToken u (Inr new) \<in> set pre
         \<and> persists (fst (register env req w)) = [TokenService_persistRefreshToken u (Inr new)]
         \<and> jwt_id p = Some (js_String env (token_id new))))
 \<and> (fst (login env req w) = pre @ TokenService_generateRefreshToken p r # post \<longrightarrow>
      (\<exists>u new. TokenService_persistRefreshToken u (Inr new) \<in> set pre
         \<and> persists (fst (login env req w)) = [TokenService_persistRefreshToken u (Inr new)]
         \<and> jwt_id p = Some (js_String env (token_id new))))
 \<and> (fst (refresh env areq w) = pre @ TokenService_generateRefreshToken p r # post \<longrightarrow>
      (\<exists>u new. TokenService_persistRefreshToken u (Inr new) \<in> set pre
         \<and> persists (fst (refresh env areq w)) = [TokenService_persistRefreshToken u (Inr new)]
         \<and> jwt_id p = Some (js_String env (token_id new))))"
  using register_signs_after_persist[of env req w pre p r post]
    login_signs_after_persist[of env req w pre p r post]
    refresh_signs_after_persist[of env areq w pre p r post]
  by blast

theorem refresh_token_embeds_persisted_id_witness:
  "fst (register mem_env alice_request empty_world) =
     take 5 (fst (register mem_env alice_request empty_world))
       @ TokenService_generateRefreshToken ((user_payload mem_env alice)\<lparr>jwt_id := Some ''1''\<rparr>)
           (Inr ''refresh:1:1'')
       # drop 6 (fst (register mem_env alice_request empty_world))
   \<and> TokenService_persistRefreshToken alice (Inr alice_record)
       \<in> set (take 5 (fst (register mem_env alice_request empty_world)))
   \<and> persists (fst (register mem_env alice_request empty_world)) =
       [TokenService_persistRefreshToken alice (Inr alice_record)]
   \<and> jwt_id ((user_payload mem_env alice)\<lparr>jwt_id := Some ''1''\<rparr>) =
       Some (js_String mem_env (token_id alice_record))"
  using refresh_token_embeds_persisted_id[of mem_env alice_request empty_world
      "take 5 (fst (register mem_env alice_request empty_world))"
      "(user_payload mem_env alice)\<lparr>jwt_id := Some ''1''\<rparr>" "Inr ''refresh:1:1''"
      "drop 6 (fst (register mem_env alice_request empty_world))"]
  by (simp add: alice_registers alice_record_string persists_def is_persist_def)

section \<open>Registration\<close>

text \<open>
  Claim C6. For every registration that is answered with status 201: the identity was created
  with role \<^verbatim>\<open>Roles.CUSTOMER\<close>; the access token delivered was generated from a payload whose
  \<^verbatim>\<open>sub\<close> is the string conversion of the id of the created identity and whose \<^verbatim>\<open>tenant\<close> is the
  empty string when the identity has no tenant and the string conversion of the tenant id
  otherwise; and \<^verbatim>\<open>persistRefreshToken\<close> was called with that same identity as owner and
  returned a record.
\<close>

theorem register_issues_for_new_identity:
  assumes "Res_status 201 \<in> set (fst (register env req w))"
  shows "\<exists>d u p tok new.
      UserService_create d (Inr u) \<in> set (fst (register env req w))
    \<and> data_role d = Roles_CUSTOMER
    \<and> TokenService_generateAccessToken p (Inr tok) \<in> set (fst (register env req w))
    \<and> Res_cookie ''accessToken'' tok (accessToken_options env) \<in> set (fst (register env req w))
    \<and> jwt_sub p = js_String env (user_id u)
    \<and> jwt_tenant p =
        (case user_tenant u of None \<Rightarrow> [] | Some tn \<Rightarrow> js_String env (tenant_id tn))
    \<and> TokenService_persistRefreshToken u (Inr new) \<in> set (fst (register env req w))"
proof (cases rule: register_runs[of req env w])
  case invalid
  with assms show ?thesis by simp
next
  case (create_failed e)
  with assms show ?thesis by simp
next
  case (sign_failed u e)
  with assms show ?thesis by simp
next
  case (persist_failed u tok e)
  with assms show ?thesis by simp
next
  case (sign_refresh_failed u tok new e)
  with assms show ?thesis by simp
next
  case (delivered u tok new rtok)
  have "jwt_sub (user_payload env u) = js_String env (user_id u)"
    and "jwt_tenant (user_payload env u) =
      (case user_tenant u of None \<Rightarrow> [] | Some tn \<Rightarrow> js_String env (tenant_id tn))"
    and "data_role (register_data req) = Roles_CUSTOMER"
    by (simp_all add: user_payload_def register_data_def split: option.split)
  with delivered show ?thesis
    by (intro exI[of _ "register_data req"] exI[of _ u] exI[of _ "user_payload env u"]
        exI[of _ tok] exI[of _ new]) simp
qed

theorem register_issues_for_new_identity_witness:
  "Res_status 201 \<in> set (fst (register mem_env alice_request empty_world))
   \<and> UserService_create (register_data alice_request) (Inr alice)
       \<in> set (fst (register mem_env alice_request empty_world))
   \<and> data_role (register_data alice_request) = ''customer''
   \<and> TokenService_generateAccessToken (user_payload mem_env alice) (Inr ''access:1:customer'')
       \<in> set (fst (register mem_env alice_request empty_world))
   \<and> jwt_sub (user_payload mem_env alice) = ''1''
   \<and> jwt_tenant (user_payload mem_env alice) = []
   \<and> TokenService_persistRefreshToken alice (Inr alice_record)
       \<in> set (fst (register mem_env alice_request empty_world))
   \<and> records (snd (register mem_env alice_request empty_world)) = [alice_record]
   \<and> token_owner alice_record = user_id alice"
proof -
  have "jwt_sub (user_payload mem_env alice) = ''1''"
    and "jwt_tenant (user_payload mem_env alice) = []"
    and "data_role (register_data alice_request) = ''customer''"
    and "token_owner alice_record = user_id alice"
    and "records alice_world = [alice_record]"
    by (simp_all add: user_payload_def register_data_def Roles_CUSTOMER_def mem_defs)
  with register_issues_for_new_identity[of mem_env alice_request empty_world]
  show ?thesis
    by (simp add: alice_registers alice_registers_state)
qed

section \<open>Refresh for an identity that no longer exists\<close>

text \<open>
  Claim C7. In a refresh call where the lookup by the \<^verbatim>\<open>sub\<close> of the token returns no
  identity, the caller gets the 400 error \<^verbatim>\<open>"User with the token could not find"\<close> through
  \<^verbatim>\<open>next\<close> and nothing else: no refresh-token record is persisted, none is deleted, and no
  cookie is set.
\<close>

theorem refresh_unknown_identity_changes_nothing:
  assumes "UserService_findById n (Inr None) \<in> set (fst (refresh env req w))"
  shows "responses (fst (refresh env req w)) =
           [Next (HttpError 400 ''User with the token could not find'')]
       \<and> persists (fst (refresh env req w)) = []
       \<and> deletions (fst (refresh env req w)) = []
       \<and> cookies (fst (refresh env req w)) = []"
  using assms
  by (cases rule: refresh_runs[of env req w]) (simp_all add: observation_defs)

theorem refresh_unknown_identity_changes_nothing_witness:
  "UserService_findById (Finite 1) (Inr None) \<in> set (fst (refresh mem_env alice_auth empty_world))
   \<and> responses (fst (refresh mem_env alice_auth empty_world)) =
       [Next (HttpError 400 ''User with the token could not find'')]
   \<and> persists (fst (refresh mem_env alice_auth empty_world)) = []
   \<and> deletions (fst (refresh mem_env alice_auth empty_world)) = []
   \<and> cookies (fst (refresh mem_env alice_auth empty_world)) = []
   \<and> snd (refresh mem_env alice_auth empty_world) = empty_world"
  using refresh_unknown_identity_changes_nothing[of "Finite 1" mem_env alice_auth empty_world]
  by (simp add: deleted_identity_refreshes deleted_identity_refreshes_state)

section \<open>Deletions and logout\<close>

text \<open>
  Claim C8, as the source has it. A logout call makes exactly one \<^verbatim>\<open>deleteRefreshToken\<close>
  call, and so does a refresh call that persisted a new refresh-token record; a refresh call
  that persisted none (it stopped before, or \<^verbatim>\<open>persistRefreshToken\<close> raised) makes no
  \<^verbatim>\<open>deleteRefreshToken\<close> call. The call is always on the number converted from the id claim of
  the presented token, so no call deletes more than one record. When the deletion returns,
  logout clears the \<^verbatim>\<open>accessToken\<close> and the \<^verbatim>\<open>refreshToken\<close> cookie; when it raises, logout
  hands the error to \<^verbatim>\<open>next\<close> and clears no cookie.
\<close>

theorem one_deletion_per_rotation_and_logout:
  "(TokenService_persistRefreshToken u (Inr new) \<in> set (fst (refresh env req w)) \<longrightarrow>
      (\<exists>r. deletions (fst (refresh env req w)) =
         [TokenService_deleteRefreshToken (js_Number env (auth_id (auth req))) r]))
 \<and> ((\<forall>u' new'. TokenService_persistRefreshToken u' (Inr new') \<notin> set (fst (refresh env req w)))
        \<longrightarrow> deletions (fst (refresh env req w)) = [])
 \<and> (deletions (fst (refresh env req w)) = []
      \<or> (\<exists>r. deletions (fst (refresh env req w)) =
            [TokenService_deleteRefreshToken (js_Number env (auth_id (auth req))) r]))
 \<and> (\<exists>r. deletions (fst (logout env req w)) =
        [TokenService_deleteRefreshToken (js_Number env (auth_id (auth req))) r])
 \<and> (TokenService_deleteRefreshToken (js_Number env (auth_id (auth req))) (Inr ())
        \<in> set (fst (logout env req w)) \<longrightarrow>
      cleared (fst (logout env req w)) =
        [Res_clearCookie ''accessToken'', Res_clearCookie ''refreshToken''])
 \<and> (TokenService_deleteRefreshToken (js_Number env (auth_id (auth req))) (Inl e)
        \<in> set (fst (logout env req w)) \<longrightarrow>
      cleared (fst (logout env req w)) = [] \<and> responses (fst (logout env req w)) = [Next e])"
proof (intro conjI)
  show "TokenService_persistRefreshToken u (Inr new) \<in> set (fst (refresh env req w)) \<longrightarrow>
      (\<exists>r. deletions (fst (refresh env req w)) =
         [TokenService_deleteRefreshToken (js_Number env (auth_id (auth req))) r])"
    by (cases rule: refresh_runs[of env req w]) (simp_all add: deletions_def is_delete_def)
  show "(\<forall>u' new'. TokenService_persistRefreshToken u' (Inr new') \<notin> set (fst (refresh env req w)))
        \<longrightarrow> deletions (fst (refresh env req w)) = []"
  proof (cases rule: refresh_runs[of env req w])
    case (sign_failed e)
    then show ?thesis by (simp add: deletions_def is_delete_def)
  next
    case (lookup_failed tok e)
    then show ?thesis by (simp add: deletions_def is_delete_def)
  next
    case (unknown_identity tok)
    then show ?thesis by (simp add: deletions_def is_delete_def)
  next
    case (persist_failed tok u e)
    then show ?thesis by (simp add: deletions_def is_delete_def)
  next
    case (delete_failed tok u new e)
    then have "TokenService_persistRefreshToken u (Inr new) \<in> set (fst (refresh env req w))"
      by simp
    then show ?thesis by blast
  next
    case (sign_refresh_failed tok u new e)
    then have "TokenService_persistRefreshToken u (Inr new) \<in> set (fst (refresh env req w))"
      by simp
    then show ?thesis by blast
  next
    case (delivered tok u new rtok)
    then have "TokenService_persistRefreshToken u (Inr new) \<in> set (fst (refresh env req w))"
      by simp
    then show ?thesis by blast
  qed
  show "deletions (fst (refresh env req w)) = []
      \<or> (\<exists>r. deletions (fst (refresh env req w)) =
            [TokenService_deleteRefreshToken (js_Number env (auth_id (auth req))) r])"
    by (cases rule: refresh_runs[of env req w]) (simp_all add: deletions_def is_delete_def)
  show "\<exists>r. deletions (fst (logout env req w)) =
        [TokenService_deleteRefreshToken (js_Number env (auth_id (auth req))) r]"
    by (cases rule: logout_runs[of env req w]) (simp_all add: deletions_def is_delete_def)
  show "TokenService_deleteRefreshToken (js_Number env (auth_id (auth req))) (Inr ())
        \<in> set (fst (logout env req w)) \<longrightarrow>
      cleared (fst (logout env req w)) =
        [Res_clearCookie ''accessToken'', Res_clearCookie ''refreshToken'']"
    by (cases rule: logout_runs[of env req w]) (simp_all add: cleared_def is_clearCookie_def)
  show "TokenService_deleteRefreshToken (js_Number env (auth_id (auth req))) (Inl e)
        \<in> set (fst (logout env req w)) \<longrightarrow>
      cleared (fst (logout env req w)) = [] \<and> responses (fst (logout env req w)) = [Next e]"
    by (cases rule: logout_runs[of env req w])
      (simp_all add: cleared_def is_clearCookie_def responses_def is_response_def)
qed

theorem one_deletion_per_rotation_and_logout_witness:
  "TokenService_persistRefreshToken alice (Inr \<lparr>token_id = Finite 2, token_owner = Finite 1\<rparr>)
     \<in> set (fst (refresh mem_env alice_auth alice_world))
   \<and> deletions (fst (refresh mem_env alice_auth alice_world)) =
     [TokenService_deleteRefreshToken (Finite 1) (Inr ())]
   \<and> persists (fst (refresh mem_env alice_auth empty_world)) = []
   \<and> deletions (fst (refresh mem_env alice_auth empty_world)) = []
   \<and> deletions (fst (logout mem_env alice_auth alice_world)) =
     [TokenService_deleteRefreshToken (Finite 1) (Inr ())]
   \<and> TokenService_deleteRefreshToken (Finite 1) (Inr ())
       \<in> set (fst (logout mem_env alice_auth alice_world))
   \<and> cleared (fst (logout mem_env alice_auth alice_world)) =
       [Res_clearCookie ''accessToken'', Res_clearCookie ''refreshToken'']
   \<and> TokenService_deleteRefreshToken (Finite 1) (Inl (Thrown ''StoreUnavailable''))
       \<in> set (fst (logout mem_env alice_auth alice_world_store_down))
   \<and> responses (fst (logout mem_env alice_auth alice_world_store_down)) =
       [Next (Thrown ''StoreUnavailable'')]"
proof -
  have rotated: "TokenService_persistRefreshToken alice
      (Inr \<lparr>token_id = Finite 2, token_owner = Finite 1\<rparr>)
      \<in> set (fst (refresh mem_env alice_auth alice_world))"
    by (simp add: alice_refreshes)
  have none: "persists (fst (refresh mem_env alice_auth empty_world)) = []"
    by (simp add: deleted_identity_refreshes persists_def is_persist_def)
  from one_deletion_per_rotation_and_logout[of alice
      "\<lparr>token_id = Finite 2, token_owner = Finite 1\<rparr>" mem_env alice_auth alice_world
      "Thrown ''StoreUnavailable''"] rotated
  have one: "deletions (fst (refresh mem_env alice_auth alice_world)) =
      [TokenService_deleteRefreshToken (Finite 1) (Inr ())]"
    by (simp add: alice_refreshes alice_presented_ids deletions_def is_delete_def)
  from one_deletion_per_rotation_and_logout[of alice
      "\<lparr>token_id = Finite 2, token_owner = Finite 1\<rparr>" mem_env alice_auth
      alice_world_store_down "Thrown ''StoreUnavailable''"]
  have down: "responses (fst (logout mem_env alice_auth alice_world_store_down)) =
      [Next (Thrown ''StoreUnavailable'')]"
    by (simp add: alice_logs_out_store_down alice_presented_ids)
  from rotated none one down show ?thesis
    by (simp add: alice_logs_out alice_logs_out_store_down deleted_identity_refreshes
        observation_defs)
qed

text \<open>
  The claim as stated fails on two runs. With the refresh-token store out of reach,
  \<^verbatim>\<open>deleteRefreshToken\<close> raises, logout hands the error to \<^verbatim>\<open>next\<close> and clears neither cookie.
  And a refresh for an identity that no longer exists makes no \<^verbatim>\<open>deleteRefreshToken\<close> call at
  all, not exactly one.
\<close>

theorem logout_clears_cookies_counterexample:
  "fst (logout mem_env alice_auth alice_world_store_down) =
     [TokenService_deleteRefreshToken (Finite 1) (Inl (Thrown ''StoreUnavailable'')),
      Next (Thrown ''StoreUnavailable'')]
   \<and> cleared (fst (logout mem_env alice_auth alice_world_store_down)) = []
   \<and> deletions (fst (refresh mem_env alice_auth empty_world)) = []"
  by (simp add: alice_logs_out_store_down deleted_identity_refreshes observation_defs)

section \<open>Delivery of the tokens\<close>

text \<open>
  Claim C9. In every register, login and refresh flow that succeeds (it answers with the id of
  the identity), exactly two cookies are set, \<^verbatim>\<open>accessToken\<close> then \<^verbatim>\<open>refreshToken\<close>, both with
  the domain \<^verbatim>\<open>Config.MAIN_DOMAIN\<close>, \<^verbatim>\<open>sameSite\<close> strict and \<^verbatim>\<open>httpOnly\<close> set, the first with
  \<^verbatim>\<open>maxAge\<close> 86400000 and the second with \<^verbatim>\<open>maxAge\<close> 31536000000; their values are the access
  token and the refresh token that the token service returned in that flow.
\<close>

theorem delivered_cookie_attributes:
  "(Res_json (id_body u) \<in> set (fst (register env req w)) \<longrightarrow>
      cookie_attributes (fst (register env req w)) =
        [(''accessToken'', \<lparr>domain = MAIN_DOMAIN env, sameSite = ''strict'',
                             maxAge = 86400000, httpOnly = True\<rparr>),
         (''refreshToken'', \<lparr>domain = MAIN_DOMAIN env, sameSite = ''strict'',
                              maxAge = 31536000000, httpOnly = True\<rparr>)]
    \<and> cookie_values (fst (register env req w)) = signed_tokens (fst (register env req w)))
 \<and> (Res_json (id_body u) \<in> set (fst (login env req w)) \<longrightarrow>
      cookie_attributes (fst (login env req w)) =
        [(''accessToken'', \<lparr>domain = MAIN_DOMAIN env, sameSite = ''strict'',
                             maxAge = 86400000, httpOnly = True\<rparr>),
         (''refreshToken'', \<lparr>domain = MAIN_DOMAIN env, sameSite = ''strict'',
                              maxAge = 31536000000, httpOnly = True\<rparr>)]
    \<and> cookie_values (fst (login env req w)) = signed_tokens (fst (login env req w)))
 \<and> (Res_json (id_body u) \<in> set (fst (refresh env areq w)) \<longrightarrow>
      cookie_attributes (fst (refresh env areq w)) =
        [(''accessToken'', \<lparr>domain = MAIN_DOMAIN env, sameSite = ''strict'',
                             maxAge = 86400000, httpOnly = True\<rparr>),
         (''refreshToken'', \<lparr>domain = MAIN_DOMAIN env, sameSite = ''strict'',
                              maxAge = 31536000000, httpOnly = True\<rparr>)]
    \<and> cookie_values (fst (refresh env areq w)) = signed_tokens (fst (refresh env areq w)))"
proof (intro conjI)
  show "Res_json (id_body u) \<in> set (fst (register env req w)) \<longrightarrow>
      cookie_attributes (fst (register env req w)) =
        [(''accessToken'', \<lparr>domain = MAIN_DOMAIN env, sameSite = ''strict'',
                             maxAge = 86400000, httpOnly = True\<rparr>),
         (''refreshToken'', \<lparr>domain = MAIN_DOMAIN env, sameSite = ''strict'',
                              maxAge = 31536000000, httpOnly = True\<rparr>)]
    \<and> cookie_values (fst (register env req w)) = signed_tokens (fst (register env req w))"
    by (cases rule: register_runs[of req env w])
      (simp_all add: accessToken_options_def refreshToken_options_def id_body_def errors_body_def)
  show "Res_json (id_body u) \<in> set (fst (login env req w)) \<longrightarrow>
      cookie_attributes (fst (login env req w)) =
        [(''accessToken'', \<lparr>domain = MAIN_DOMAIN env, sameSite = ''strict'',
                             maxAge = 86400000, httpOnly = True\<rparr>),
         (''refreshToken'', \<lparr>domain = MAIN_DOMAIN env, sameSite = ''strict'',
                              maxAge = 31536000000, httpOnly = True\<rparr>)]
    \<and> cookie_values (fst (login env req w)) = signed_tokens (fst (login env req w))"
    by (cases rule: login_runs[of req env w])
      (simp_all add: accessToken_options_def refreshToken_options_def id_body_def errors_body_def)
  show "Res_json (id_body u) \<in> set (fst (refresh env areq w)) \<longrightarrow>
      cookie_attributes (fst (refresh env areq w)) =
        [(''accessToken'', \<lparr>domain = MAIN_DOMAIN env, sameSite = ''strict'',
                             maxAge = 86400000, httpOnly = True\<rparr>),
         (''refreshToken'', \<lparr>domain = MAIN_DOMAIN env, sameSite = ''strict'',
                              maxAge = 31536000000, httpOnly = True\<rparr>)]
    \<and> cookie_values (fst (refresh env areq w)) = signed_tokens (fst (refresh env areq w))"
    by (cases rule: refresh_runs[of env areq w])
      (simp_all add: accessToken_options_def refreshToken_options_def id_body_def)
qed

theorem delivered_cookie_attributes_witness:
  "Res_json (id_body alice) \<in> set (fst (register mem_env alice_request empty_world))
   \<and> Res_json (id_body alice) \<in> set (fst (login mem_env alice_request alice_world))
   \<and> Res_json (id_body alice) \<in> set (fst (refresh mem_env alice_auth alice_world))
   \<and> cookie_attributes (fst (register mem_env alice_request empty_world)) =
       [(''accessToken'', \<lparr>domain = Some ''localhost'', sameSite = ''strict'',
                            maxAge = 86400000, httpOnly = True\<rparr>),
        (''refreshToken'', \<lparr>domain = Some ''localhost'', sameSite = ''strict'',
                             maxAge = 31536000000, httpOnly = True\<rparr>)]
   \<and> cookie_values (fst (register mem_env alice_request empty_world)) =
       [''access:1:customer'', ''refresh:1:1'']
   \<and> cookie_values (fst (login mem_env alice_request alice_world)) =
       [''access:1:customer'', ''refresh:1:2'']
   \<and> cookie_values (fst (refresh mem_env alice_auth alice_world)) =
       [''access:1:customer'', ''refresh:1:2'']"
proof -
  have "MAIN_DOMAIN mem_env = Some ''localhost''"
    by (simp add: mem_env_def)
  with delivered_cookie_attributes[of alice mem_env alice_request empty_world alice_auth]
    delivered_cookie_attributes[of alice mem_env alice_request alice_world alice_auth]
  show ?thesis
    by (simp add: alice_registers alice_logs_in alice_refreshes)
qed

section \<open>The self operation\<close>

text \<open>
  Claim C10. The controller has a \<^verbatim>\<open>self\<close> operation. It looks the identity up by the number
  converted from the \<^verbatim>\<open>sub\<close> claim of the authenticated token and answers with the properties
  of what it found, without the property \<^verbatim>\<open>password\<close>: whatever JSON body \<^verbatim>\<open>self\<close> sends, no
  property of it is named \<^verbatim>\<open>password\<close>, so the stored password hash is never in the response.
\<close>

theorem self_omits_password:
  assumes "Res_json b \<in> set (fst (self env req w))"
  shows "\<exists>found ps.
      UserService_findById (js_Number env (Some (auth_sub (auth req)))) (Inr found)
        \<in> set (fst (self env req w))
    \<and> b = JObj ps
    \<and> sent_properties ps = without_property ''password'' (spread_user found)
    \<and> ''password'' \<notin> set (sent_keys ps)"
proof (cases rule: self_runs[of env req w])
  case (lookup_failed e)
  with assms show ?thesis by simp
next
  case (answered found)
  have "sent_properties (set_property ''password'' JUndefined (spread_user found)) =
      without_property ''password'' (spread_user found)"
    by (cases found)
      (simp_all add: spread_user_def sent_properties_def without_property_def
        split: option.split)
  moreover have
    "''password'' \<notin> set (sent_keys (set_property ''password'' JUndefined (spread_user found)))"
    by (cases found)
      (simp_all add: spread_user_def sent_properties_def sent_keys_def split: option.split)
  ultimately show ?thesis using assms answered
    by (intro exI[of _ found]
        exI[of _ "set_property ''password'' JUndefined (spread_user found)"]) simp
qed

theorem self_omits_password_witness:
  "Res_json (JObj
      [(''id'', JNum (Finite 1)), (''firstName'', JStr ''Alice''), (''lastName'', JStr ''Doe''),
       (''email'', JStr ''a@b.com''), (''password'', JUndefined), (''role'', JStr ''customer''),
       (''tenant'', JNull)])
     \<in> set (fst (self mem_env alice_auth alice_world))
   \<and> ''password'' \<notin> set (sent_keys
       [(''id'', JNum (Finite 1)), (''firstName'', JStr ''Alice''), (''lastName'', JStr ''Doe''),
        (''email'', JStr ''a@b.com''), (''password'', JUndefined), (''role'', JStr ''customer''),
        (''tenant'', JNull :: number jsval)])
   \<and> user_password alice = ''hash(p1)''"
proof -
  have sent: "Res_json (JObj
      [(''id'', JNum (Finite 1)), (''firstName'', JStr ''Alice''), (''lastName'', JStr ''Doe''),
       (''email'', JStr ''a@b.com''), (''password'', JUndefined), (''role'', JStr ''customer''),
       (''tenant'', JNull)])
     \<in> set (fst (self mem_env alice_auth alice_world))"
    by (simp add: alice_asks_self)
  from self_omits_password[OF sent]
  have "''password'' \<notin> set (sent_keys
       [(''id'', JNum (Finite 1)), (''firstName'', JStr ''Alice''), (''lastName'', JStr ''Doe''),
        (''email'', JStr ''a@b.com''), (''password'', JUndefined), (''role'', JStr ''customer''),
        (''tenant'', JNull :: number jsval)])"
    by (elim exE conjE) simp
  moreover have "user_password alice = ''hash(p1)''"
    by (simp add: alice_def)
  ultimately show ?thesis using sent by simp
qed

end
